theory Spec2Isabelle
  imports Complex_Main
begin

section \<open>Strings\<close>

text \<open>
  A JavaScript string is a sequence of UTF-16 code units. The model's \<open>string\<close> holds the
  code units below 256 (ASCII and Latin-1), one \<open>char\<close> each. A number that the
  collaborators or the tables of the source supply is a \<open>real\<close>, an integer-valued one a
  \<open>nat\<close>: the arithmetic of the source without IEEE rounding, overflow or underflow. The
  confidence of a reasoning result is multiplied by values that the caller supplies and is
  a \<open>number\<close> (below), which adds the infinities and NaN.
\<close>

definition toLowerChar :: "char \<Rightarrow> char" where
  "toLowerChar c =
     (let n = (of_char c :: nat)
      in if (65 \<le> n \<and> n \<le> 90) \<or> (192 \<le> n \<and> n \<le> 222 \<and> n \<noteq> 215)
         then char_of (n + 32) else c)"

definition toLowerCase :: "string \<Rightarrow> string" where
  "toLowerCase s = map toLowerChar s"

definition is_space :: "char \<Rightarrow> bool" where
  \<comment> \<open>the class \<open>\s\<close>: TAB, LF, VT, FF, CR, SPACE, NBSP\<close>
  "is_space c = ((of_char c :: nat) \<in> {9, 10, 11, 12, 13, 32, 160})"

definition is_digit :: "char \<Rightarrow> bool" where
  \<comment> \<open>the class \<open>\d\<close>\<close>
  "is_digit c = (48 \<le> (of_char c :: nat) \<and> (of_char c :: nat) \<le> 57)"

definition line_terminator :: "char \<Rightarrow> bool" where
  \<comment> \<open>the code units that \<open>.\<close> does not match\<close>
  "line_terminator c = ((of_char c :: nat) \<in> {10, 13})"

fun starts_with :: "string \<Rightarrow> string \<Rightarrow> bool" where
  "starts_with [] s = True"
| "starts_with (c # cs) [] = False"
| "starts_with (c # cs) (d # ds) = (c = d \<and> starts_with cs ds)"

fun str_includes :: "string \<Rightarrow> string \<Rightarrow> bool" where
  \<comment> \<open>\<open>s.includes(sub)\<close>\<close>
  "str_includes [] sub = (sub = [])"
| "str_includes (c # cs) sub = (starts_with sub (c # cs) \<or> str_includes cs sub)"

fun show_digits :: "nat \<Rightarrow> string" where
  \<comment> \<open>a non-negative integer in a template literal\<close>
  "show_digits n =
     (if n < 10 then [char_of (48 + n)] else show_digits (n div 10) @ [char_of (48 + n mod 10)])"

definition parseInt :: "string \<Rightarrow> nat" where
  \<comment> \<open>on a non-empty run of decimal digits\<close>
  "parseInt ds = foldl (\<lambda>acc c. acc * 10 + ((of_char c :: nat) - 48)) 0 ds"

fun split_from :: "string \<Rightarrow> bool \<Rightarrow> string \<Rightarrow> string list" where
  "split_from cur in_sep [] = [rev cur]"
| "split_from cur in_sep (c # cs) =
     (if is_space c
      then (if in_sep then split_from cur True cs else rev cur # split_from [] True cs)
      else split_from (c # cur) False cs)"

definition split_whitespace :: "string \<Rightarrow> string list" where
  \<comment> \<open>\<open>s.split(/\s+/)\<close>: a leading or trailing separator leaves an empty piece\<close>
  "split_whitespace s = split_from [] False s"

subsection \<open>The regular expressions of the pattern tables\<close>

text \<open>
  Every pattern of the intent and contextual-factor tables is a sequence of literal
  segments joined by \<open>.*\<close>, with the flag \<open>i\<close>. It is kept as the list of its segments
  (all in lower case). \<open>regex_test\<close> is \<open>RegExp.prototype.test\<close> without the \<open>i\<close> flag;
  the table patterns are ASCII, so testing with \<open>i\<close> is testing the lower-cased subject.
\<close>

type_synonym regex = "string list"

fun skip_to :: "(string \<Rightarrow> bool) \<Rightarrow> string \<Rightarrow> bool" where
  \<comment> \<open>\<open>.*\<close> followed by the rest of the pattern\<close>
  "skip_to k [] = k []"
| "skip_to k (c # cs) = (k (c # cs) \<or> (\<not> line_terminator c \<and> skip_to k cs))"

primrec regex_at :: "regex \<Rightarrow> string \<Rightarrow> bool" where
  "regex_at [] = (\<lambda>s. True)"
| "regex_at (seg # rest) =
     (\<lambda>s. starts_with seg s \<and> (rest = [] \<or> skip_to (regex_at rest) (drop (length seg) s)))"

fun regex_test :: "regex \<Rightarrow> string \<Rightarrow> bool" where
  "regex_test p [] = regex_at p []"
| "regex_test p (c # cs) = (regex_at p (c # cs) \<or> regex_test p cs)"

definition regex_test_i :: "regex \<Rightarrow> string \<Rightarrow> bool" where
  "regex_test_i p s = regex_test p (toLowerCase s)"

fun join_dotstar :: "regex \<Rightarrow> string" where
  "join_dotstar [] = []"
| "join_dotstar [seg] = seg"
| "join_dotstar (seg # rest) = seg @ ''.*'' @ join_dotstar rest"

definition regex_toString :: "regex \<Rightarrow> string" where
  "regex_toString p = ''/'' @ join_dotstar p @ ''/i''"

section \<open>JavaScript numbers and values\<close>

text \<open>
  A JavaScript number: a real, an infinity or NaN. The operations are those of IEEE 754
  on these values, without rounding and without the sign of zero.
\<close>

datatype number = Num real | Infinity | Minus_infinity | NaN

fun is_positive :: "number \<Rightarrow> bool" where
  "is_positive (Num a) = (0 < a)"
| "is_positive Infinity = True"
| "is_positive Minus_infinity = False"
| "is_positive NaN = False"

fun js_negate :: "number \<Rightarrow> number" where
  "js_negate (Num a) = Num (- a)"
| "js_negate Infinity = Minus_infinity"
| "js_negate Minus_infinity = Infinity"
| "js_negate NaN = NaN"

definition js_times :: "number \<Rightarrow> number \<Rightarrow> number" where
  \<comment> \<open>\<open>x * y\<close>: NaN is absorbing, and zero times an infinity is NaN\<close>
  "js_times x y =
     (case (x, y) of
        (Num a, Num b) \<Rightarrow> Num (a * b)
      | _ \<Rightarrow>
          if x = NaN \<or> y = NaN \<or> x = Num 0 \<or> y = Num 0 then NaN
          else if is_positive x = is_positive y then Infinity else Minus_infinity)"

definition js_plus :: "number \<Rightarrow> number \<Rightarrow> number" where
  \<comment> \<open>\<open>x + y\<close> on numbers: NaN is absorbing, and opposite infinities add up to NaN\<close>
  "js_plus x y =
     (case (x, y) of
        (Num a, Num b) \<Rightarrow> Num (a + b)
      | _ \<Rightarrow>
          if x = NaN \<or> y = NaN then NaN
          else if (x = Infinity \<and> y = Minus_infinity) \<or> (x = Minus_infinity \<and> y = Infinity)
          then NaN
          else if x = Infinity \<or> y = Infinity then Infinity else Minus_infinity)"

definition js_less :: "number \<Rightarrow> number \<Rightarrow> bool" where
  \<comment> \<open>\<open>x < y\<close>: false as soon as one side is NaN\<close>
  "js_less x y =
     (case (x, y) of
        (Num a, Num b) \<Rightarrow> a < b
      | (Num a, Infinity) \<Rightarrow> True
      | (Minus_infinity, Num b) \<Rightarrow> True
      | (Minus_infinity, Infinity) \<Rightarrow> True
      | _ \<Rightarrow> False)"

definition Math_max :: "number \<Rightarrow> number \<Rightarrow> number" where
  \<comment> \<open>\<open>Math.max(x, y)\<close>: NaN when an argument is NaN\<close>
  "Math_max x y = (if x = NaN \<or> y = NaN then NaN else if js_less x y then y else x)"

definition Math_min :: "number \<Rightarrow> number \<Rightarrow> number" where
  \<comment> \<open>\<open>Math.min(x, y)\<close>: NaN when an argument is NaN\<close>
  "Math_min x y = (if x = NaN \<or> y = NaN then NaN else if js_less y x then y else x)"

text \<open>
  A value that \<open>JSON.parse\<close> produces. A JSON number is kept as its real value (a literal
  beyond the range of a double, which the source reads as an infinity, is not modelled).
\<close>

datatype json =
  JNull | JBool bool | JNumber real | JString string | JArray "json list"
  | JObject "(string \<times> json) list"

fun falsy :: "json \<Rightarrow> bool" where
  "falsy JNull = True"
| "falsy (JBool b) = (\<not> b)"
| "falsy (JNumber x) = (x = 0)"
| "falsy (JString s) = (s = [])"
| "falsy v = False"

subsection \<open>The conversion of a value to a number\<close>

definition trim :: "string \<Rightarrow> string" where
  \<comment> \<open>without the white space and line terminators at either end\<close>
  "trim s = rev (dropWhile is_space (rev (dropWhile is_space s)))"

fun digit_of :: "char \<Rightarrow> nat option" where
  \<comment> \<open>the value of a hexadecimal digit\<close>
  "digit_of c =
     (let n = (of_char c :: nat)
      in if 48 \<le> n \<and> n \<le> 57 then Some (n - 48)
         else if 97 \<le> n \<and> n \<le> 102 then Some (n - 87)
         else if 65 \<le> n \<and> n \<le> 70 then Some (n - 55)
         else None)"

fun radix_value :: "nat \<Rightarrow> nat \<Rightarrow> string \<Rightarrow> nat option" where
  \<comment> \<open>the digits read in the given base after the value \<open>acc\<close>, if all are digits of it\<close>
  "radix_value base acc [] = Some acc"
| "radix_value base acc (c # cs) =
     (case digit_of c of
        None \<Rightarrow> None
      | Some d \<Rightarrow> if d < base then radix_value base (acc * base + d) cs else None)"

definition non_decimal_literal :: "string \<Rightarrow> nat option" where
  \<comment> \<open>\<open>0x\<close>, \<open>0o\<close> or \<open>0b\<close> (in either case) and at least one digit of the base\<close>
  "non_decimal_literal s =
     (case s of
        z # p # ds \<Rightarrow>
          if z = CHR ''0'' \<and> ds \<noteq> []
          then (if p = CHR ''x'' \<or> p = CHR ''X'' then radix_value 16 0 ds
                else if p = CHR ''o'' \<or> p = CHR ''O'' then radix_value 8 0 ds
                else if p = CHR ''b'' \<or> p = CHR ''B'' then radix_value 2 0 ds
                else None)
          else None
      | _ \<Rightarrow> None)"

definition exponent_part :: "string \<Rightarrow> int option" where
  \<comment> \<open>nothing, or \<open>e\<close> or \<open>E\<close>, an optional sign and at least one decimal digit\<close>
  "exponent_part s =
     (case s of
        [] \<Rightarrow> Some 0
      | c # t \<Rightarrow>
          if c = CHR ''e'' \<or> c = CHR ''E''
          then (let negative = (t \<noteq> [] \<and> hd t = CHR ''-'');
                    ds = (if t \<noteq> [] \<and> (hd t = CHR ''+'' \<or> hd t = CHR ''-'') then tl t else t)
                in if ds \<noteq> [] \<and> list_all is_digit ds
                   then Some (if negative then - int (parseInt ds) else int (parseInt ds))
                   else None)
          else None)"

definition unsigned_decimal :: "string \<Rightarrow> number option" where
  \<comment> \<open>\<open>Infinity\<close>, or decimal digits with an optional fraction and exponent; digits are
      needed before or after the point\<close>
  "unsigned_decimal s =
     (if s = ''Infinity'' then Some Infinity
      else (let ip = takeWhile is_digit s;
                r1 = dropWhile is_digit s;
                pointed = (r1 \<noteq> [] \<and> hd r1 = CHR ''.'');
                fp = (if pointed then takeWhile is_digit (tl r1) else []);
                r2 = (if pointed then dropWhile is_digit (tl r1) else r1)
            in if ip = [] \<and> fp = [] then None
               else (case exponent_part r2 of
                       None \<Rightarrow> None
                     | Some e \<Rightarrow>
                         Some (Num (if 0 \<le> e
                                    then real (parseInt (ip @ fp)) / 10 ^ length fp * 10 ^ nat e
                                    else real (parseInt (ip @ fp)) / 10 ^ length fp
                                           / 10 ^ nat (- e))))))"

definition string_to_number :: "string \<Rightarrow> number" where
  \<comment> \<open>the number that a string converts to: 0 for an empty or blank string, NaN for a
      string that is not a numeric literal\<close>
  "string_to_number s =
     (let t = trim s
      in if t = [] then Num 0
         else (case non_decimal_literal t of
                 Some n \<Rightarrow> Num (real n)
               | None \<Rightarrow>
                   if hd t = CHR ''+''
                   then (case unsigned_decimal (tl t) of Some x \<Rightarrow> x | None \<Rightarrow> NaN)
                   else if hd t = CHR ''-''
                   then (case unsigned_decimal (tl t) of
                           Some x \<Rightarrow> js_negate x | None \<Rightarrow> NaN)
                   else (case unsigned_decimal t of Some x \<Rightarrow> x | None \<Rightarrow> NaN)))"

fun to_number :: "json \<Rightarrow> number" where
  \<comment> \<open>the number that an operand of \<open>*\<close> converts to. An array converts through the string
      that joins its elements with commas: the empty array through the empty string, an
      array of one element through the string of that element (the string of a number
      converts back to the number, that of \<open>null\<close> is empty), a longer one through a string
      with a comma in it. An object converts through \<open>[object Object]\<close>; an object with
      an own property \<open>toString\<close>, whose conversion throws instead, is not modelled.\<close>
  "to_number JNull = Num 0"
| "to_number (JBool b) = (if b then Num 1 else Num 0)"
| "to_number (JNumber x) = Num x"
| "to_number (JString s) = string_to_number s"
| "to_number (JObject kvs) = NaN"
| "to_number (JArray []) = Num 0"
| "to_number (JArray [JNull]) = Num 0"
| "to_number (JArray [JBool b]) = NaN"
| "to_number (JArray [JNumber x]) = Num x"
| "to_number (JArray [JString s]) = string_to_number s"
| "to_number (JArray [JObject kvs]) = NaN"
| "to_number (JArray [JArray vs]) = to_number (JArray vs)"
| "to_number (JArray (v # w # vs)) = NaN"

section \<open>Intent classification\<close>

datatype intent_type =
  Assignment | Performance | Urgency | Quality | Learning | Analytics | General_inquiry

definition intentPatterns :: "(intent_type \<times> regex list) list" where
  "intentPatterns =
   [(Assignment,
       [[''who'', ''should'', ''work''], [''best'', ''worker''], [''recommend'', ''worker''],
        [''assign'', ''worker''], [''optimal'', ''assignment''], [''who'', ''can'', ''handle''],
        [''need'', ''someone'', ''for''], [''looking'', ''for'', ''worker'']]),
    (Performance,
       [[''how'', ''performing''], [''worker'', ''performance''], [''efficiency''],
        [''quality'', ''score''], [''speed'', ''comparison''], [''track'', ''record''],
        [''evaluate'', ''worker''], [''analyze'', ''performance'']]),
    (Urgency,
       [[''urgent''], [''rush''], [''asap''], [''immediately''], [''critical''],
        [''deadline''], [''priority''], [''emergency''], [''quick'']]),
    (Quality,
       [[''precision''], [''accurate''], [''careful''], [''detailed''],
        [''high'', ''quality''], [''perfect''], [''exact''], [''flawless'']]),
    (Learning,
       [[''learn'', ''from''], [''improve''], [''feedback''], [''train'', ''model''],
        [''update'', ''data''], [''better'', ''prediction''], [''enhance'']]),
    (Analytics,
       [[''status''], [''overview''], [''analytics''], [''performance'', ''metrics''],
        [''system'', ''health''], [''statistics''], [''summary'']])]"

record intent =
  itype :: intent_type
  iconfidence :: real
  matched_pattern :: string

record intent_analysis =
  primary :: intent
  secondary :: "intent list"
  analysis :: string

text \<open>
  \<open>Math.random\<close> is an input of the model: \<open>rnd k\<close> is the value of the \<open>k\<close>-th call
  made during one classification, a number in \<open>[0, 1)\<close>.
\<close>

fun detect_patterns :: "(nat \<Rightarrow> real) \<Rightarrow> nat \<Rightarrow> intent_type \<Rightarrow> regex list \<Rightarrow> string \<Rightarrow> intent list" where
  \<comment> \<open>the inner loop, over the patterns of one intent type; \<open>k\<close> draws were made before\<close>
  "detect_patterns rnd k t [] q = []"
| "detect_patterns rnd k t (p # ps) q =
     (if regex_test_i p q
      then \<lparr>itype = t, iconfidence = 0.8 + rnd k * 0.2, matched_pattern = regex_toString p\<rparr>
             # detect_patterns rnd (Suc k) t ps q
      else detect_patterns rnd k t ps q)"

fun detect_intents :: "(nat \<Rightarrow> real) \<Rightarrow> nat \<Rightarrow> (intent_type \<times> regex list) list \<Rightarrow> string \<Rightarrow> intent list" where
  \<comment> \<open>the outer loop, over the entries of the pattern table\<close>
  "detect_intents rnd k [] q = []"
| "detect_intents rnd k ((t, ps) # rest) q =
     (let found = detect_patterns rnd k t ps q
      in found @ detect_intents rnd (k + length found) rest q)"

definition analyzeIntent :: "(nat \<Rightarrow> real) \<Rightarrow> string \<Rightarrow> intent_analysis" where
  "analyzeIntent rnd query =
     (let lowerQuery = toLowerCase query;
          found = detect_intents rnd 0 intentPatterns lowerQuery;
          detectedIntents =
            (if found = []
             then [\<lparr>itype = General_inquiry, iconfidence = 0.6, matched_pattern = ''fallback_analysis''\<rparr>]
             else found);
          sorted = sort_key (\<lambda>i. - iconfidence i) detectedIntents
      in \<lparr>primary =
            (case sorted of
               [] \<Rightarrow> \<lparr>itype = General_inquiry, iconfidence = 0.5, matched_pattern = ''default''\<rparr>
             | i # _ \<Rightarrow> i),
          secondary = take 2 (drop 1 sorted),
          analysis = ''Detected '' @ show_digits (length sorted) @ '' potential intent(s)''\<rparr>)"

section \<open>Context extraction\<close>

text \<open>
  An entry of \<open>environmental_factors\<close> is either the plain string stored under
  \<open>urgency\<close> or an object \<open>{factor, weight}\<close>. The extraction copies the weight from the
  contextual-factor table; in a context that the caller supplies the weight is any JSON
  value (an absent weight is falsy, as \<open>null\<close> is, and is kept as \<open>JNull\<close>).
  An object is kept as the list of its own properties in enumeration order.
\<close>

datatype env_entry = Level string | Factor string json

fun entry_factor :: "env_entry \<Rightarrow> string option" where
  \<comment> \<open>\<open>entry.factor\<close>; a string has no such property\<close>
  "entry_factor (Level s) = None"
| "entry_factor (Factor f w) = Some f"

fun entry_weight :: "env_entry \<Rightarrow> json option" where
  \<comment> \<open>\<open>entry.weight\<close>\<close>
  "entry_weight (Level s) = None"
| "entry_weight (Factor f w) = Some w"

fun obj_get :: "('k \<times> 'v) list \<Rightarrow> 'k \<Rightarrow> 'v option" where
  "obj_get [] k = None"
| "obj_get ((k', v) # rest) k = (if k' = k then Some v else obj_get rest k)"

fun obj_set :: "'k \<Rightarrow> 'v \<Rightarrow> ('k \<times> 'v) list \<Rightarrow> ('k \<times> 'v) list" where
  \<comment> \<open>assignment to a property: an existing key keeps its place, a new one goes last\<close>
  "obj_set k v [] = [(k, v)]"
| "obj_set k v ((k', v') # rest) = (if k' = k then (k, v) # rest else (k', v') # obj_set k v rest)"

record requirements =
  machineId :: "nat option"
  complexity :: "string option"
  timeConstraint :: "string option"
  qualityFocus :: "string option"

text \<open>
  The extracted context; its \<open>query_analysis\<close> and \<open>constraints\<close> properties are empty
  objects that nothing reads, and are left out.
\<close>

record extracted_context =
  requirements :: requirements
  environmental_factors :: "(string \<times> env_entry) list"

text \<open>
  The context supplied by the caller, seen through the two top-level keys that the
  shallow merge \<open>{...context, ...providedContext}\<close> can replace.
\<close>

record supplied_context =
  supplied_requirements :: "requirements option"
  supplied_environmental_factors :: "(string \<times> env_entry) list option"

definition no_supplied_context :: supplied_context where
  "no_supplied_context = \<lparr>supplied_requirements = None, supplied_environmental_factors = None\<rparr>"

definition contextualFactors :: "(string \<times> (regex \<times> real \<times> string) list) list" where
  "contextualFactors =
   [(''timeContext'',
       [([''morning''], 1.2, ''fresh_start''),
        ([''afternoon''], 1.0, ''steady_pace''),
        ([''evening''], 0.9, ''fatigue_consideration''),
        ([''end'', ''of'', ''day''], 0.8, ''rushing_risk'')]),
    (''workloadContext'',
       [([''heavy'', ''workload''], 0.8, ''capacity_concern''),
        ([''light'', ''load''], 1.2, ''available_capacity''),
        ([''busy''], 0.7, ''limited_availability''),
        ([''free''], 1.3, ''full_availability'')]),
    (''qualityContext'',
       [([''prototype''], 1.5, ''experimental_work''),
        ([''production''], 1.3, ''standard_quality''),
        ([''customer'', ''facing''], 1.6, ''high_stakes''),
        ([''internal'', ''use''], 1.0, ''standard_quality'')])]"

definition complexityIndicators :: "(string \<times> string list) list" where
  "complexityIndicators =
   [(''simple'', [''simple'', ''easy'', ''basic'', ''straightforward'']),
    (''medium'', [''medium'', ''standard'', ''normal'', ''regular'']),
    (''complex'', [''complex'', ''difficult'', ''challenging'', ''advanced'', ''intricate'']),
    (''critical'', [''critical'', ''precision'', ''perfect'', ''exact'', ''flawless''])]"

fun machineMatch :: "string \<Rightarrow> string option" where
  \<comment> \<open>the group captured by the first match of \<open>/machine\s*(\d+)/i\<close>\<close>
  "machineMatch [] = None"
| "machineMatch (c # cs) =
     (if starts_with ''machine'' (toLowerCase (take 7 (c # cs)))
      then (let ds = takeWhile is_digit (dropWhile is_space (drop 7 (c # cs)))
            in if ds \<noteq> [] then Some ds else machineMatch cs)
      else machineMatch cs)"

fun complexityLevel :: "(string \<times> string list) list \<Rightarrow> string \<Rightarrow> string option" where
  \<comment> \<open>the first level one of whose indicators the lower-cased query includes\<close>
  "complexityLevel [] q = None"
| "complexityLevel ((lvl, indicators) # rest) q =
     (if list_ex (\<lambda>indicator. str_includes (toLowerCase q) indicator) indicators
      then Some lvl else complexityLevel rest q)"

fun apply_patterns ::
  "string \<Rightarrow> (regex \<times> real \<times> string) list \<Rightarrow> string \<Rightarrow> (string \<times> env_entry) list
     \<Rightarrow> (string \<times> env_entry) list" where
  "apply_patterns factorType [] q env = env"
| "apply_patterns factorType ((p, w, f) # rest) q env =
     apply_patterns factorType rest q
       (if regex_test_i p q then obj_set factorType (Factor f (JNumber w)) env else env)"

fun apply_factors ::
  "(string \<times> (regex \<times> real \<times> string) list) list \<Rightarrow> string \<Rightarrow> (string \<times> env_entry) list
     \<Rightarrow> (string \<times> env_entry) list" where
  "apply_factors [] q env = env"
| "apply_factors ((factorType, ps) # rest) q env =
     apply_factors rest q (apply_patterns factorType ps q env)"

definition extractContextFromQuery :: "string \<Rightarrow> supplied_context \<Rightarrow> extracted_context" where
  "extractContextFromQuery q providedContext =
     (let urgent = (str_includes q ''urgent'' \<or> str_includes q ''rush'' \<or> str_includes q ''asap'');
          req = \<lparr>machineId = map_option parseInt (machineMatch q),
                 complexity = complexityLevel complexityIndicators q,
                 timeConstraint = (if urgent then Some ''urgent'' else None),
                 qualityFocus =
                   (if str_includes q ''quality'' \<or> str_includes q ''precision''
                       \<or> str_includes q ''careful''
                    then Some ''high'' else None)\<rparr>;
          env = apply_factors contextualFactors q
                  (if urgent then [(''urgency'', Level ''high'')] else [])
      in \<lparr>requirements =
            (case supplied_requirements providedContext of None \<Rightarrow> req | Some r \<Rightarrow> r),
          environmental_factors =
            (case supplied_environmental_factors providedContext of None \<Rightarrow> env | Some e \<Rightarrow> e)\<rparr>)"

section \<open>Reasoning\<close>

datatype approach =
  Intelligent_worker_assignment | Performance_analysis | Comprehensive_analytics
  | Adaptive_learning | General_assistance

record parameters =
  param_machineId :: nat
  param_complexity :: nat

record reasoning =
  approach :: approach
  confidence :: number
  explanation :: string
  suggestions :: "string list"
  action_plan :: "string list"
  parameters :: "parameters option"

definition complexityMapping :: "(string \<times> nat) list" where
  "complexityMapping =
   [(''simple'', 1), (''easy'', 1), (''basic'', 1),
    (''medium'', 3), (''standard'', 3), (''normal'', 3),
    (''complex'', 4), (''difficult'', 4), (''challenging'', 4),
    (''critical'', 5), (''precision'', 5), (''perfect'', 5)]"

definition mapComplexityToNumber :: "string option \<Rightarrow> nat" where
  \<comment> \<open>\<open>mapping[complexityString] || 3\<close>; the property names inherited from
      \<open>Object.prototype\<close> are not complexity strings and are not modelled\<close>
  "mapComplexityToNumber complexityString =
     (case complexityString of
        None \<Rightarrow> 3
      | Some s \<Rightarrow> (case obj_get complexityMapping s of
                    None \<Rightarrow> 3
                  | Some n \<Rightarrow> if n = 0 then 3 else n))"

definition urgency_high :: "extracted_context \<Rightarrow> bool" where
  \<comment> \<open>\<open>context.environmental_factors?.urgency === 'high'\<close>\<close>
  "urgency_high ctx = (obj_get (environmental_factors ctx) ''urgency'' = Some (Level ''high''))"

definition quality_high :: "extracted_context \<Rightarrow> bool" where
  \<comment> \<open>\<open>context.requirements?.qualityFocus === 'high'\<close>\<close>
  "quality_high ctx = (qualityFocus (requirements ctx) = Some ''high'')"

definition intelligentMachineSelection :: "extracted_context \<Rightarrow> nat" where
  "intelligentMachineSelection ctx =
     (if quality_high ctx then 1 else if urgency_high ctx then 3 else 2)"

definition intelligentComplexityAssessment :: "extracted_context \<Rightarrow> nat" where
  "intelligentComplexityAssessment ctx =
     min 5 (3 + (if urgency_high ctx then 1 else 0) + (if quality_high ctx then 1 else 0))"

definition reasonAboutAssignment :: "extracted_context \<Rightarrow> reasoning" where
  "reasonAboutAssignment ctx =
     (let requested = machineId (requirements ctx);
          mapped = mapComplexityToNumber (complexity (requirements ctx));
          no_machine = (requested = None \<or> requested = Some 0);
          machine = (if no_machine then intelligentMachineSelection ctx else the requested);
          suggestions1 =
            (if no_machine
             then [''Intelligently selected Machine '' @ show_digits machine @ '' based on context'']
             else []);
          cplx = (if mapped = 0 then intelligentComplexityAssessment ctx else mapped);
          suggestions2 =
            (if mapped = 0
             then suggestions1 @
                  [''Assessed complexity as level '' @ show_digits cplx @ '' based on requirements'']
             else suggestions1)
      in \<lparr>approach = Intelligent_worker_assignment,
          confidence = Num (0.85 + (if urgency_high ctx then 0.1 else 0)
                                 + (if quality_high ctx then 0.1 else 0)),
          explanation =
            ''For this assignment, I'' @ [CHR 0x27] @ ''m considering Machine '' @ show_digits machine
              @ '' with complexity level '' @ show_digits cplx @ ''. ''
              @ (if urgency_high ctx
                 then ''Given the urgent nature, I'' @ [CHR 0x27]
                      @ ''ll prioritize workers with fast completion times. ''
                 else [])
              @ (if quality_high ctx
                 then ''With high quality requirements, I'' @ [CHR 0x27]
                      @ ''ll emphasize workers with excellent quality scores. ''
                 else []),
          suggestions = suggestions2,
          action_plan =
            [''Analyze worker performance for Machine '' @ show_digits machine,
             ''Apply context-specific weighting for urgency and quality'',
             ''Select optimal worker with confidence scoring'',
             ''Provide detailed recommendation with reasoning''],
          parameters = Some \<lparr>param_machineId = machine, param_complexity = cplx\<rparr>\<rparr>)"

definition reasonAboutPerformance :: "extracted_context \<Rightarrow> reasoning" where
  "reasonAboutPerformance ctx =
     \<lparr>approach = Performance_analysis,
      confidence = Num 0.9,
      explanation = ''I'' @ [CHR 0x27]
        @ ''ll analyze worker performance with contextual insights and comparative analysis.'',
      suggestions = [''Include historical trends'', ''Compare with team averages'',
                     ''Identify improvement opportunities''],
      action_plan = [''Gather comprehensive performance data'', ''Apply statistical analysis'',
                     ''Generate actionable insights'', ''Provide improvement recommendations''],
      parameters = None\<rparr>"

definition reasonAboutAnalytics :: "extracted_context \<Rightarrow> reasoning" where
  "reasonAboutAnalytics ctx =
     \<lparr>approach = Comprehensive_analytics,
      confidence = Num 0.95,
      explanation = ''I'' @ [CHR 0x27]
        @ ''ll provide comprehensive system analytics with predictive insights.'',
      suggestions = [''Real-time metrics'', ''Trend analysis'', ''Predictive modeling'',
                     ''Actionable recommendations''],
      action_plan = [''Collect current system metrics'', ''Analyze performance trends'',
                     ''Generate predictive insights'', ''Provide strategic recommendations''],
      parameters = None\<rparr>"

definition reasonAboutLearning :: "extracted_context \<Rightarrow> reasoning" where
  "reasonAboutLearning ctx =
     \<lparr>approach = Adaptive_learning,
      confidence = Num 0.8,
      explanation = ''I'' @ [CHR 0x27]
        @ ''ll help the system learn and improve from new data and feedback.'',
      suggestions = [''Incremental learning'', ''Pattern recognition'', ''Model optimization''],
      action_plan = [''Analyze new data quality'', ''Update learning models'',
                     ''Validate improvements'', ''Provide learning insights''],
      parameters = None\<rparr>"

definition reasonAboutGeneral :: "extracted_context \<Rightarrow> reasoning" where
  "reasonAboutGeneral ctx =
     \<lparr>approach = General_assistance,
      confidence = Num 0.7,
      explanation = ''I'' @ [CHR 0x27]
        @ ''ll provide helpful information and guidance based on available context.'',
      suggestions = [''Clarify specific needs'', ''Explore available options'',
                     ''Provide educational information''],
      action_plan = [''Analyze available information'', ''Provide relevant insights'',
                     ''Suggest specific actions'', ''Offer additional assistance''],
      parameters = None\<rparr>"

fun apply_entries :: "(string \<times> env_entry) list \<Rightarrow> reasoning \<Rightarrow> reasoning" where
  \<comment> \<open>the loop over \<open>Object.entries(context.environmental_factors)\<close>: a falsy weight is
      skipped, any other weight is converted to a number and multiplied in\<close>
  "apply_entries [] r = r"
| "apply_entries ((factorType, factorData) # rest) r =
     apply_entries rest
       (case factorData of
          Level s \<Rightarrow> r
        | Factor f w \<Rightarrow>
            if \<not> falsy w
            then r\<lparr>confidence := js_times (confidence r) (to_number w),
                   explanation := explanation r @ ''Considering '' @ f @ '' factor. ''\<rparr>
            else r)"

definition applyEnvironmentalFactors :: "reasoning \<Rightarrow> extracted_context \<Rightarrow> reasoning" where
  "applyEnvironmentalFactors r ctx =
     (let r' = apply_entries (environmental_factors ctx) r
      in r'\<lparr>confidence := Math_min (Num 1.0) (Math_max (Num 0.1) (confidence r'))\<rparr>)"

definition reasonAboutQuery :: "intent_analysis \<Rightarrow> extracted_context \<Rightarrow> reasoning" where
  "reasonAboutQuery ia ctx =
     applyEnvironmentalFactors
       (case itype (primary ia) of
          Assignment \<Rightarrow> reasonAboutAssignment ctx
        | Performance \<Rightarrow> reasonAboutPerformance ctx
        | Analytics \<Rightarrow> reasonAboutAnalytics ctx
        | Learning \<Rightarrow> reasonAboutLearning ctx
        | _ \<Rightarrow> reasonAboutGeneral ctx)
       ctx"

section \<open>Prediction enhancement\<close>

text \<open>
  What is thrown, with its message. The message of a \<open>TypeError\<close> that the engine itself
  raises is the engine's own wording; the model puts a description in its place.
\<close>

datatype error = Error string | TypeError string | SyntaxError string

fun message :: "error \<Rightarrow> string" where
  "message (Error m) = m"
| "message (TypeError m) = m"
| "message (SyntaxError m) = m"

text \<open>
  The prediction of the ML system, with the fields that the enhancement reads
  (\<open>prediction_confidence\<close> is the source's \<open>prediction.confidence\<close>). The ML system is
  an external collaborator: \<open>predictWorkerML machineId complexity\<close> is a parameter of the
  model, and may throw.
\<close>

record prediction =
  recommendedWorker :: string
  estimatedTime :: real
  prediction_confidence :: real
  avgQuality :: real

type_synonym predictor = "nat \<Rightarrow> nat \<Rightarrow> error + prediction"

definition calculateContextualScore :: "prediction \<Rightarrow> reasoning \<Rightarrow> number" where
  "calculateContextualScore p r =
     (let score0 = Num (prediction_confidence p * 100);
          score1 = js_times score0 (confidence r);
          score2 = (if str_includes (explanation r) ''urgent'' \<and> estimatedTime p < 20
                    then js_plus score1 (Num 10) else score1);
          score3 = (if str_includes (explanation r) ''quality'' \<and> avgQuality p > 85
                    then js_plus score2 (Num 15) else score2)
      in Math_min (Num 100) score3)"

record alternative =
  worker :: string
  complexity_adjusted :: nat
  estimated_time :: real
  reason :: string

fun alternatives_loop ::
  "predictor \<Rightarrow> nat \<Rightarrow> nat \<Rightarrow> prediction \<Rightarrow> nat list \<Rightarrow> error + alternative list" where
  \<comment> \<open>the loop \<open>for (let i = 1; i <= 5; i++)\<close>, over the values of \<open>i\<close> still to visit\<close>
  "alternatives_loop predict m c base [] = Inr []"
| "alternatives_loop predict m c base (i # rest) =
     (if i \<noteq> c
      then (case predict m i of
              Inl e \<Rightarrow> Inl e
            | Inr altPrediction \<Rightarrow>
                (case alternatives_loop predict m c base rest of
                   Inl e \<Rightarrow> Inl e
                 | Inr others \<Rightarrow>
                     Inr (if recommendedWorker altPrediction \<noteq> recommendedWorker base
                          then \<lparr>worker = recommendedWorker altPrediction,
                                complexity_adjusted = i,
                                estimated_time = estimatedTime altPrediction,
                                reason = (if i < c then ''Faster but less thorough''
                                          else ''More thorough but slower'')\<rparr> # others
                          else others)))
      else alternatives_loop predict m c base rest)"

definition generateAlternatives ::
  "predictor \<Rightarrow> prediction \<Rightarrow> reasoning \<Rightarrow> error + alternative list" where
  "generateAlternatives predict basePrediction r =
     (case parameters r of
        None \<Rightarrow> Inl (TypeError ''Cannot destructure reasoning.parameters'')
      | Some ps \<Rightarrow>
          (case alternatives_loop predict (param_machineId ps) (param_complexity ps)
                  basePrediction [1, 2, 3, 4, 5] of
             Inl e \<Rightarrow> Inl e
           | Inr alternatives \<Rightarrow> Inr (take 2 alternatives)))"

datatype risk_level = Low | Medium | High

record risk_assessment =
  level :: risk_level
  factors :: "string list"

definition assessRisk :: "prediction \<Rightarrow> reasoning \<Rightarrow> risk_assessment" where
  "assessRisk p r =
     (let risks =
            (if prediction_confidence p < 0.7
             then [''Low prediction confidence - consider gathering more data''] else [])
            @ (if estimatedTime p > 30
               then [''Extended completion time - monitor progress closely''] else [])
            @ (if str_includes (explanation r) ''urgent'' \<and> estimatedTime p > 20
               then [''Time constraint risk - consider alternative workers''] else [])
      in \<lparr>level = (if length risks = 0 then Low else if length risks = 1 then Medium else High),
          factors = risks\<rparr>)"

text \<open>
  The enhanced prediction. Its \<open>explanation\<close> text prints floating-point numbers and is
  left out.
\<close>

record enhanced_prediction = prediction +
  ai_confidence :: number
  contextual_score :: number
  alternative_workers :: "alternative list"
  risk :: risk_assessment

definition enhancePredictionWithAI ::
  "predictor \<Rightarrow> prediction \<Rightarrow> reasoning \<Rightarrow> error + enhanced_prediction" where
  "enhancePredictionWithAI predict basePrediction r =
     (case generateAlternatives predict basePrediction r of
        Inl e \<Rightarrow> Inl e
      | Inr alternatives \<Rightarrow>
          Inr (prediction.extend basePrediction
                 (enhanced_prediction.fields (confidence r)
                    (calculateContextualScore basePrediction r) alternatives
                    (assessRisk basePrediction r))))"

section \<open>Learning store\<close>

record interaction =
  timestamp :: string
  interaction_query :: string
  interaction_intent :: intent_type
  result_type :: string
  interaction_confidence :: real

text \<open>
  A value of the \<open>patterns\<close> map is the array of occurrences that \<open>learnFromInteraction\<close>
  keeps for a word, or the plain object that \<open>loadLearningData\<close> stores under the key
  \<open>user_preferences\<close>. A \<open>Map\<close> is kept as the list of its entries in insertion order.
\<close>

datatype pattern_value = Occurrences "(intent_type \<times> string) list" | Stored_preferences

record learningData =
  interactions :: "interaction list"
  patterns :: "(string \<times> pattern_value) list"
  preferences :: "(string \<times> string) list"

definition constructed :: learningData where
  \<comment> \<open>the learning data set up by the constructor\<close>
  "constructed = \<lparr>interactions = [], patterns = [], preferences = []\<rparr>"

definition loadLearningData :: "learningData \<Rightarrow> learningData" where
  "loadLearningData st = st\<lparr>patterns := obj_set ''user_preferences'' Stored_preferences (patterns st)\<rparr>"

record learning_status =
  total_interactions :: nat
  learned_patterns :: nat
  user_preferences :: nat
  effectiveness :: string

definition getLearningStatus :: "learningData \<Rightarrow> learning_status" where
  \<comment> \<open>without \<open>last_update\<close>, the time of the call\<close>
  "getLearningStatus st =
     \<lparr>total_interactions = length (interactions st),
      learned_patterns = length (patterns st),
      user_preferences = length (preferences st),
      effectiveness = ''High''\<rparr>"

text \<open>
  The clock is an input: \<open>clock k\<close> is the text of the \<open>k\<close>-th \<open>new Date().toISOString()\<close>
  evaluated during one call. An exception leaves the mutations made before it in place, so
  the functions that mutate return the exception, if any, together with the state.
\<close>

fun learn_words ::
  "intent_type \<Rightarrow> (nat \<Rightarrow> string) \<Rightarrow> nat \<Rightarrow> string list \<Rightarrow> (string \<times> pattern_value) list
     \<Rightarrow> error option \<times> (string \<times> pattern_value) list" where
  "learn_words t clock k [] pats = (None, pats)"
| "learn_words t clock k (word # rest) pats =
     (if length word > 3
      then (let pats' = (if obj_get pats word = None then obj_set word (Occurrences []) pats
                         else pats)
            in case obj_get pats' word of
                 Some (Occurrences occs) \<Rightarrow>
                   learn_words t clock (Suc k) rest
                     (obj_set word (Occurrences (occs @ [(t, clock k)])) pats')
               | _ \<Rightarrow> (Some (TypeError ''patterns.get(...).push is not a function''), pats'))
      else learn_words t clock k rest pats)"

definition learnFromInteraction ::
  "string \<Rightarrow> intent_analysis \<Rightarrow> string \<Rightarrow> (nat \<Rightarrow> string) \<Rightarrow> learningData
     \<Rightarrow> error option \<times> learningData" where
  "learnFromInteraction q ia resultType clock st =
     (let pushed = interactions st @
            [\<lparr>timestamp = clock 0, interaction_query = q,
              interaction_intent = itype (primary ia), result_type = resultType,
              interaction_confidence = iconfidence (primary ia)\<rparr>];
          (thrown, pats) = learn_words (itype (primary ia)) clock 1
                             (split_whitespace (toLowerCase q)) (patterns st)
      in case thrown of
           Some e \<Rightarrow> (Some e, st\<lparr>interactions := pushed, patterns := pats\<rparr>)
         | None \<Rightarrow>
             (None, st\<lparr>interactions :=
                          (if length pushed > 1000 then drop (length pushed - 800) pushed
                           else pushed),
                        patterns := pats\<rparr>))"

section \<open>The pipeline and its HTTP handler\<close>

text \<open>
  The result of the executed action, with its \<open>type\<close> tag and, for an assignment, the two
  predictions. The performance and analytics actions only report what
  \<open>appService.getStatus()\<close> returns; that collaborator is the parameter \<open>status_report\<close>:
  \<open>None\<close> when the report is built, \<open>Some e\<close> when building it throws \<open>e\<close>.
\<close>

record services =
  predictWorkerML :: predictor
  status_report :: "error option"

datatype action_result =
    Worker_assignment prediction enhanced_prediction string
  | Performance_report
  | Analytics_report
  | Learning_enhancement learning_status
  | General_guidance "string list"

fun action_type :: "action_result \<Rightarrow> string" where
  "action_type (Worker_assignment b e c) = ''worker_assignment''"
| "action_type Performance_report = ''performance_analysis''"
| "action_type Analytics_report = ''comprehensive_analytics''"
| "action_type (Learning_enhancement s) = ''learning_enhancement''"
| "action_type (General_guidance s) = ''general_assistance''"

definition executeIntelligentAssignment :: "predictor \<Rightarrow> reasoning \<Rightarrow> error + action_result" where
  "executeIntelligentAssignment predict r =
     (case parameters r of
        None \<Rightarrow> Inl (TypeError ''Cannot destructure reasoning.parameters'')
      | Some ps \<Rightarrow>
          (case predict (param_machineId ps) (param_complexity ps) of
             Inl e \<Rightarrow> Inl e
           | Inr basePrediction \<Rightarrow>
               (case enhancePredictionWithAI predict basePrediction r of
                  Inl e \<Rightarrow> Inl e
                | Inr enhanced \<Rightarrow> Inr (Worker_assignment basePrediction enhanced (explanation r)))))"

definition executeIntelligentAction ::
  "services \<Rightarrow> learningData \<Rightarrow> reasoning \<Rightarrow> error + action_result" where
  "executeIntelligentAction svc st r =
     (case approach r of
        Intelligent_worker_assignment \<Rightarrow> executeIntelligentAssignment (predictWorkerML svc) r
      | Performance_analysis \<Rightarrow>
          (case status_report svc of Some e \<Rightarrow> Inl e | None \<Rightarrow> Inr Performance_report)
      | Comprehensive_analytics \<Rightarrow>
          (case status_report svc of Some e \<Rightarrow> Inl e | None \<Rightarrow> Inr Analytics_report)
      | Adaptive_learning \<Rightarrow> Inr (Learning_enhancement (getLearningStatus st))
      | General_assistance \<Rightarrow> Inr (General_guidance (suggestions r)))"

text \<open>
  The response envelope, without the prose of \<open>natural_response\<close> and the \<open>timestamp\<close>.
\<close>

record envelope =
  understood_intent :: intent_analysis
  context_analysis :: extracted_context
  response_reasoning :: string
  response_result :: action_result
  response_confidence :: number
  response_suggestions :: "string list"

definition processNaturalLanguageQuery ::
  "services \<Rightarrow> (nat \<Rightarrow> real) \<Rightarrow> (nat \<Rightarrow> string) \<Rightarrow> string \<Rightarrow> supplied_context \<Rightarrow> learningData
     \<Rightarrow> (error + envelope) \<times> learningData" where
  "processNaturalLanguageQuery svc rnd clock q supplied st =
     (let ia = analyzeIntent rnd q;
          extractedContext = extractContextFromQuery q supplied;
          r = reasonAboutQuery ia extractedContext
      in case executeIntelligentAction svc st r of
           Inl e \<Rightarrow> (Inl e, st)
         | Inr res \<Rightarrow>
             (case learnFromInteraction q ia (action_type res) clock st of
                (Some e, st') \<Rightarrow> (Inl e, st')
              | (None, st') \<Rightarrow>
                  (Inr \<lparr>understood_intent = ia,
                        context_analysis = extractedContext,
                        response_reasoning = explanation r,
                        response_result = res,
                        response_confidence = confidence r,
                        response_suggestions = suggestions r\<rparr>, st')))"

fun property :: "json \<Rightarrow> string \<Rightarrow> json option" where
  \<comment> \<open>reading \<open>query\<close> or \<open>context\<close> off a parsed value that is not \<open>null\<close>\<close>
  "property (JObject kvs) k = obj_get kvs k"
| "property v k = None"

datatype response_body = Envelope_body envelope | Error_body string string

record response =
  status :: nat
  body :: response_body

definition error_response :: "error \<Rightarrow> response" where
  \<comment> \<open>the \<open>catch\<close> block: \<open>{error, ai_suggestion}\<close> with status 400\<close>
  "error_response e =
     \<lparr>status = 400,
      body = Error_body (''Invalid query format: '' @ message e)
               ''Please provide a natural language query about worker assignments''\<rparr>"

text \<open>
  The handler, from the outcome of \<open>JSON.parse(body)\<close> on. \<open>read_context\<close> is the typed
  view of the caller's \<open>context\<close> property (absent: \<open>{}\<close>); the keys of the user context
  spread over it (\<open>session_id\<close>, \<open>timestamp\<close>, \<open>user_agent\<close>, \<open>source\<close>) are none that the
  pipeline reads.
\<close>

definition handleNaturalLanguageQuery ::
  "services \<Rightarrow> (nat \<Rightarrow> real) \<Rightarrow> (nat \<Rightarrow> string) \<Rightarrow> (json option \<Rightarrow> supplied_context)
     \<Rightarrow> error + json \<Rightarrow> learningData \<Rightarrow> response \<times> learningData" where
  "handleNaturalLanguageQuery svc rnd clock read_context parsed st =
     (case parsed of
        Inl e \<Rightarrow> (error_response e, st)
      | Inr JNull \<Rightarrow> (error_response (TypeError ''Cannot destructure null''), st)
      | Inr v \<Rightarrow>
          (case property v ''query'' of
             None \<Rightarrow> (error_response (Error ''Query field is required''), st)
           | Some qv \<Rightarrow>
               if falsy qv then (error_response (Error ''Query field is required''), st)
               else (case qv of
                       JString q \<Rightarrow>
                         (case processNaturalLanguageQuery svc rnd clock q
                                 (read_context (property v ''context'')) st of
                            (Inl e, st') \<Rightarrow> (error_response e, st')
                          | (Inr env, st') \<Rightarrow> (\<lparr>status = 200, body = Envelope_body env\<rparr>, st'))
                     | _ \<Rightarrow>
                         (error_response (TypeError ''query.toLowerCase is not a function''), st))))"

section \<open>Specification-side definitions and concrete inputs\<close>

definition risk_factors_present :: "prediction \<Rightarrow> reasoning \<Rightarrow> nat" where
  \<comment> \<open>how many of the three risk conditions hold\<close>
  "risk_factors_present p r =
     (if prediction_confidence p < 0.7 then 1 else 0)
     + (if estimatedTime p > 30 then 1 else 0)
     + (if str_includes (explanation r) ''urgent'' \<and> estimatedTime p > 20 then 1 else 0)"

definition contextual_score_spec :: "prediction \<Rightarrow> reasoning \<Rightarrow> real \<Rightarrow> real" where
  \<comment> \<open>the contextual score in the words of the specification, for a reasoning confidence
      that is the real \<open>c\<close>\<close>
  "contextual_score_spec p r c =
     min 100
       (prediction_confidence p * 100 * c
        + (if str_includes (explanation r) ''urgent'' \<and> estimatedTime p < 20 then 10 else 0)
        + (if str_includes (explanation r) ''quality'' \<and> avgQuality p > 85 then 15 else 0))"

fun finite_weight :: "env_entry \<Rightarrow> bool" where
  \<comment> \<open>the entry has no truthy weight, or one that converts to a real\<close>
  "finite_weight (Level s) = True"
| "finite_weight (Factor f w) =
     (falsy w \<or> (case to_number w of Num x \<Rightarrow> True | _ \<Rightarrow> False))"

definition finite_weights :: "(string \<times> env_entry) list \<Rightarrow> bool" where
  "finite_weights es = list_all (\<lambda>entry. finite_weight (snd entry)) es"

definition arrays_only :: "(string \<times> pattern_value) list \<Rightarrow> bool" where
  \<comment> \<open>no key of the patterns map holds the stored preferences object\<close>
  "arrays_only pats = list_all (\<lambda>entry. snd entry \<noteq> Stored_preferences) pats"

text \<open>Sources of random draws: all zero, and one half at a single position.\<close>

definition draws_zero :: "nat \<Rightarrow> real" where
  "draws_zero k = 0"

definition draws_first_high :: "nat \<Rightarrow> real" where
  "draws_first_high k = (if k = 0 then 1 / 2 else 0)"

definition draws_second_high :: "nat \<Rightarrow> real" where
  "draws_second_high k = (if k = 1 then 1 / 2 else 0)"

definition clock_fixed :: "nat \<Rightarrow> string" where
  "clock_fixed k = ''2024-01-01T00:00:00.000Z''"

definition urgent_precision_query :: string where
  "urgent_precision_query = ''Who should work on Machine 1 for an urgent precision job?''"

definition rush_query :: string where
  "rush_query = ''who should work on this rush job''"

definition rush_context :: extracted_context where
  "rush_context = extractContextFromQuery rush_query no_supplied_context"

definition rush_reasoning :: reasoning where
  "rush_reasoning = reasonAboutAssignment rush_context"

definition sample_prediction :: prediction where
  "sample_prediction =
     \<lparr>recommendedWorker = ''Alice'', estimatedTime = 15, prediction_confidence = 0.9,
      avgQuality = 90\<rparr>"

definition sample_predictor :: predictor where
  "sample_predictor m c =
     Inr \<lparr>recommendedWorker =
            (if c = 2 then ''Bob'' else if c \<le> 3 then ''Alice'' else ''Carol''),
          estimatedTime = 10 + 5 * real c, prediction_confidence = 0.9, avgQuality = 90\<rparr>"

definition untyped_context :: "json option \<Rightarrow> supplied_context" where
  \<comment> \<open>the view of a caller's context that overrides neither key\<close>
  "untyped_context c = no_supplied_context"

definition sample_services :: services where
  "sample_services = \<lparr>predictWorkerML = sample_predictor, status_report = None\<rparr>"

text \<open>
  A sequence of calls of \<open>learnFromInteraction\<close> on one store; each caller catches what a
  call throws, and the store keeps what the call did before.
\<close>

type_synonym learn_call = "string \<times> intent_analysis \<times> string \<times> (nat \<Rightarrow> string)"

fun learn_all :: "learn_call list \<Rightarrow> learningData \<Rightarrow> learningData" where
  "learn_all [] st = st"
| "learn_all ((q, ia, resultType, clock) # rest) st =
     learn_all rest (snd (learnFromInteraction q ia resultType clock st))"

definition preferences_call :: learn_call where
  \<comment> \<open>the call that the pipeline makes for the query \<open>user_preferences\<close>\<close>
  "preferences_call =
     (''user_preferences'', analyzeIntent draws_zero ''user_preferences'',
      ''general_assistance'', clock_fixed)"

definition rush_call :: learn_call where
  "rush_call = (''rush this order'', analyzeIntent draws_zero ''rush this order'',
                ''general_assistance'', clock_fixed)"

definition rush_store :: learningData where
  \<comment> \<open>a store after \<open>loadLearningData\<close> that has seen the word \<open>rush\<close> once\<close>
  "rush_store =
     \<lparr>interactions = [],
      patterns = [(''user_preferences'', Stored_preferences),
                  (''rush'', Occurrences [(Urgency, ''2023-12-31T00:00:00.000Z'')])],
      preferences = []\<rparr>"

text \<open>
  A request \<open>{"query": "hello there", "context": {"environmental_factors":
  {"mood": {"factor": "calm", "weight": "abc"}}}}\<close>: the caller's context replaces the
  extracted environmental factors by one whose weight is a string that is no number.
\<close>

definition mood_context :: supplied_context where
  "mood_context =
     \<lparr>supplied_requirements = None,
      supplied_environmental_factors = Some [(''mood'', Factor ''calm'' (JString ''abc''))]\<rparr>"

definition mood_extracted :: extracted_context where
  "mood_extracted = extractContextFromQuery ''hello there'' mood_context"

definition mood_pipeline_run :: "(error + envelope) \<times> learningData" where
  "mood_pipeline_run =
     processNaturalLanguageQuery sample_services draws_zero clock_fixed ''hello there''
       mood_context (loadLearningData constructed)"

section \<open>Intent classification: what does not depend on the random draws\<close>

lemma detect_patterns_itype:
  "i \<in> set (detect_patterns rnd k t ps q) \<Longrightarrow> itype i = t \<and> (\<exists>p \<in> set ps. regex_test_i p q)"
  by (induction ps arbitrary: k) (auto split: if_splits)

lemma detect_patterns_Nil:
  "(detect_patterns rnd k t ps q = []) = (\<forall>p \<in> set ps. \<not> regex_test_i p q)"
  by (induction ps arbitrary: k) auto

lemma detect_intents_itype:
  "i \<in> set (detect_intents rnd k tbl q) \<Longrightarrow>
     \<exists>ps. (itype i, ps) \<in> set tbl \<and> (\<exists>p \<in> set ps. regex_test_i p q)"
proof (induction tbl arbitrary: k)
  case Nil
  then show ?case by simp
next
  case (Cons e tbl)
  obtain t ps where e: "e = (t, ps)" by (cases e)
  from Cons.prems have "i \<in> set (detect_patterns rnd k t ps q) \<or>
      i \<in> set (detect_intents rnd (k + length (detect_patterns rnd k t ps q)) tbl q)"
    by (simp add: e Let_def)
  then show ?case
  proof
    assume "i \<in> set (detect_patterns rnd k t ps q)"
    then show ?thesis using detect_patterns_itype e by fastforce
  next
    assume "i \<in> set (detect_intents rnd (k + length (detect_patterns rnd k t ps q)) tbl q)"
    then show ?thesis using Cons.IH by fastforce
  qed
qed

lemma detect_intents_Nil:
  "(detect_intents rnd k tbl q = []) =
     (\<forall>(t, ps) \<in> set tbl. \<forall>p \<in> set ps. \<not> regex_test_i p q)"
  by (induction tbl arbitrary: k) (fastforce simp: Let_def detect_patterns_Nil)+

lemma primary_in_detected:
  "primary (analyzeIntent rnd query) \<in>
     set (let found = detect_intents rnd 0 intentPatterns (toLowerCase query)
          in if found = []
             then [\<lparr>itype = General_inquiry, iconfidence = 0.6,
                    matched_pattern = ''fallback_analysis''\<rparr>]
             else found)"
proof -
  have first_sorted: "xs \<noteq> [] \<Longrightarrow> (case sort_key f xs of [] \<Rightarrow> d | i # _ \<Rightarrow> i) \<in> set xs"
    for xs :: "intent list" and f :: "intent \<Rightarrow> real" and d
  proof -
    assume "xs \<noteq> []"
    then have "sort_key f xs \<noteq> []" by (metis length_sort length_0_conv)
    then obtain i rest where "sort_key f xs = i # rest" by (cases "sort_key f xs") auto
    moreover from this have "i \<in> set xs" by (metis list.set_intros(1) set_sort)
    ultimately show ?thesis by simp
  qed
  show ?thesis
    unfolding analyzeIntent_def Let_def
    by (simp only: intent_analysis.simps) (rule first_sorted, simp)
qed

text \<open>
  C1 (as amended). When every intent pattern that matches the lower-cased query belongs to
  one intent type (in particular when no pattern matches), two calls of \<open>analyzeIntent\<close>
  on that query yield the same primary intent type, whatever values \<open>Math.random\<close>
  returns in either call.
\<close>

theorem analyzeIntent_single_type_deterministic:
  assumes "\<forall>(t', ps) \<in> set intentPatterns. \<forall>p \<in> set ps.
             regex_test_i p (toLowerCase q) \<longrightarrow> t' = t"
  shows "itype (primary (analyzeIntent r1 q)) = itype (primary (analyzeIntent r2 q))"
proof -
  have key: "itype (primary (analyzeIntent r q)) =
      (if detect_intents r 0 intentPatterns (toLowerCase q) = [] then General_inquiry else t)" for r
  proof (cases "detect_intents r 0 intentPatterns (toLowerCase q) = []")
    case True
    with primary_in_detected [of r q] show ?thesis by (simp add: Let_def)
  next
    case False
    with primary_in_detected [of r q]
    have "primary (analyzeIntent r q) \<in> set (detect_intents r 0 intentPatterns (toLowerCase q))"
      by (simp add: Let_def)
    from detect_intents_itype [OF this] assms have "itype (primary (analyzeIntent r q)) = t"
      by fastforce
    with False show ?thesis by simp
  qed
  have "(detect_intents r1 0 intentPatterns (toLowerCase q) = []) =
        (detect_intents r2 0 intentPatterns (toLowerCase q) = [])"
    by (simp only: detect_intents_Nil)
  then show ?thesis by (simp only: key)
qed

theorem analyzeIntent_single_type_deterministic_witness:
  "itype (primary (analyzeIntent draws_zero ''Recommend a worker'')) = Assignment
   \<and> itype (primary (analyzeIntent draws_first_high ''Recommend a worker'')) = Assignment"
proof -
  have only_assignment: "\<forall>(t', ps) \<in> set intentPatterns. \<forall>p \<in> set ps.
      regex_test_i p (toLowerCase ''Recommend a worker'') \<longrightarrow> t' = Assignment"
    by code_simp
  have one_call: "itype (primary (analyzeIntent draws_zero ''Recommend a worker'')) = Assignment"
    by code_simp
  from analyzeIntent_single_type_deterministic
    [OF only_assignment, of draws_zero draws_first_high] one_call
  show ?thesis by simp
qed

text \<open>
  C1 (as stated) fails: the query \<open>urgent precision\<close> matches one urgency pattern and one
  quality pattern, and the greater of the two draws decides the primary intent.
\<close>

theorem analyzeIntent_depends_on_draws:
  "itype (primary (analyzeIntent draws_first_high ''urgent precision'')) = Urgency
   \<and> itype (primary (analyzeIntent draws_second_high ''urgent precision'')) = Quality"
  by code_simp

section \<open>Risk assessment\<close>

text \<open>
  C2. The risk level is \<open>low\<close> iff none of the three risk conditions (confidence below
  0.7, estimated time above 30, urgency mentioned with estimated time above 20) holds,
  \<open>medium\<close> iff exactly one holds and \<open>high\<close> iff two or more hold; the collected factor
  strings are as many as the conditions that hold.
\<close>

theorem assessRisk_level_by_count:
  "length (factors (assessRisk p r)) = risk_factors_present p r
   \<and> (level (assessRisk p r) = Low) = (risk_factors_present p r = 0)
   \<and> (level (assessRisk p r) = Medium) = (risk_factors_present p r = 1)
   \<and> (level (assessRisk p r) = High) = (2 \<le> risk_factors_present p r)"
  by (simp add: assessRisk_def risk_factors_present_def Let_def)

theorem assessRisk_level_by_count_witness:
  "risk_factors_present sample_prediction rush_reasoning = 0
   \<and> level (assessRisk sample_prediction rush_reasoning) = Low
   \<and> factors (assessRisk sample_prediction rush_reasoning) = []"
proof -
  have none: "risk_factors_present sample_prediction rush_reasoning = 0"
    by code_simp
  with assessRisk_level_by_count [of sample_prediction rush_reasoning]
  show ?thesis by simp
qed

section \<open>Alternatives\<close>

lemma alternatives_loop_entries:
  "alternatives_loop predict m c base is = Inr alts \<Longrightarrow> a \<in> set alts \<Longrightarrow>
     worker a \<noteq> recommendedWorker base \<and> complexity_adjusted a \<in> set is
     \<and> complexity_adjusted a \<noteq> c
     \<and> reason a = (if complexity_adjusted a < c then ''Faster but less thorough''
                   else ''More thorough but slower'')"
proof (induction "is" arbitrary: alts)
  case Nil
  then show ?case by simp
next
  case (Cons i rest)
  show ?case
  proof (cases "i = c")
    case True
    with Cons show ?thesis by simp
  next
    case False
    with Cons.prems(1) obtain alt others where
      alt: "predict m i = Inr alt" and
      others: "alternatives_loop predict m c base rest = Inr others" and
      alts: "alts = (if recommendedWorker alt \<noteq> recommendedWorker base
                     then \<lparr>worker = recommendedWorker alt, complexity_adjusted = i,
                           estimated_time = estimatedTime alt,
                           reason = (if i < c then ''Faster but less thorough''
                                     else ''More thorough but slower'')\<rparr> # others
                     else others)"
      by (auto split: sum.splits)
    from Cons.prems(2) alts have "a \<in> set others \<or>
        (recommendedWorker alt \<noteq> recommendedWorker base \<and>
         a = \<lparr>worker = recommendedWorker alt, complexity_adjusted = i,
              estimated_time = estimatedTime alt,
              reason = (if i < c then ''Faster but less thorough''
                        else ''More thorough but slower'')\<rparr>)"
      by (auto split: if_splits)
    then show ?thesis
    proof
      assume "a \<in> set others"
      from Cons.IH [OF others this] show ?thesis by simp
    next
      assume "recommendedWorker alt \<noteq> recommendedWorker base \<and>
         a = \<lparr>worker = recommendedWorker alt, complexity_adjusted = i,
              estimated_time = estimatedTime alt,
              reason = (if i < c then ''Faster but less thorough''
                        else ''More thorough but slower'')\<rparr>"
      with False show ?thesis by simp
    qed
  qed
qed

lemma alternatives_loop_total:
  "\<forall>i \<in> set is. \<exists>p. predict m i = Inr p \<Longrightarrow> \<exists>alts. alternatives_loop predict m c base is = Inr alts"
  by (induction "is") auto

lemma generateAlternatives_returns:
  assumes "parameters r = Some ps"
    and "\<forall>i \<in> set [1, 2, 3, 4, 5]. \<exists>p. predict (param_machineId ps) i = Inr p"
  shows "\<exists>alts. generateAlternatives predict base r = Inr alts"
proof -
  from alternatives_loop_total
    [of "[1, 2, 3, 4, 5]" predict "param_machineId ps" "param_complexity ps" base, OF assms(2)]
  obtain full where
    "alternatives_loop predict (param_machineId ps) (param_complexity ps) base [1, 2, 3, 4, 5]
       = Inr full"
    by blast
  with assms(1) show ?thesis
    by (simp add: generateAlternatives_def del: alternatives_loop.simps)
qed

text \<open>
  C3. The alternatives list that \<open>generateAlternatives\<close> produces has at most two entries,
  none of them names the worker of the primary prediction, and each entry is annotated
  \<open>Faster but less thorough\<close> when its complexity level is below the chosen complexity and
  \<open>More thorough but slower\<close> when it is above.
\<close>

theorem generateAlternatives_entries:
  assumes "generateAlternatives predict base r = Inr alts"
    and "parameters r = Some ps"
  shows "length alts \<le> 2
     \<and> (\<forall>a \<in> set alts.
           worker a \<noteq> recommendedWorker base
         \<and> (complexity_adjusted a < param_complexity ps \<longrightarrow> reason a = ''Faster but less thorough'')
         \<and> (complexity_adjusted a > param_complexity ps \<longrightarrow> reason a = ''More thorough but slower''))"
proof -
  define looped where
    "looped = alternatives_loop predict (param_machineId ps) (param_complexity ps) base
                [1, 2, 3, 4, 5]"
  from assms have
    "(case looped of Inl e \<Rightarrow> Inl e | Inr alternatives \<Rightarrow> Inr (take 2 alternatives)) = Inr alts"
    by (simp add: generateAlternatives_def looped_def del: alternatives_loop.simps)
  then obtain full where "looped = Inr full" and alts: "alts = take 2 full"
    by (cases looped) auto
  then have full:
    "alternatives_loop predict (param_machineId ps) (param_complexity ps) base [1, 2, 3, 4, 5]
       = Inr full"
    by (simp only: looped_def)
  have "length alts \<le> 2" using alts by simp
  moreover have "worker a \<noteq> recommendedWorker base
         \<and> (complexity_adjusted a < param_complexity ps \<longrightarrow> reason a = ''Faster but less thorough'')
         \<and> (complexity_adjusted a > param_complexity ps \<longrightarrow> reason a = ''More thorough but slower'')"
    if "a \<in> set alts" for a
  proof -
    from that alts have "a \<in> set full" by (auto dest: in_set_takeD)
    from alternatives_loop_entries [OF full this] show ?thesis by auto
  qed
  ultimately show ?thesis by blast
qed

theorem generateAlternatives_entries_witness:
  "generateAlternatives sample_predictor sample_prediction rush_reasoning =
      Inr [\<lparr>worker = ''Bob'', complexity_adjusted = 2, estimated_time = 20,
            reason = ''Faster but less thorough''\<rparr>,
           \<lparr>worker = ''Carol'', complexity_adjusted = 4, estimated_time = 30,
            reason = ''More thorough but slower''\<rparr>]
   \<and> parameters rush_reasoning = Some \<lparr>param_machineId = 3, param_complexity = 3\<rparr>
   \<and> recommendedWorker sample_prediction = ''Alice''"
proof -
  have produced: "generateAlternatives sample_predictor sample_prediction rush_reasoning =
      Inr [\<lparr>worker = ''Bob'', complexity_adjusted = 2, estimated_time = 20,
            reason = ''Faster but less thorough''\<rparr>,
           \<lparr>worker = ''Carol'', complexity_adjusted = 4, estimated_time = 30,
            reason = ''More thorough but slower''\<rparr>]"
    by code_simp
  have chosen: "parameters rush_reasoning = Some \<lparr>param_machineId = 3, param_complexity = 3\<rparr>"
    by code_simp
  have primary_worker: "recommendedWorker sample_prediction = ''Alice''"
    by (simp add: sample_prediction_def)
  from generateAlternatives_entries [OF produced chosen] produced chosen primary_worker
  show ?thesis by blast
qed

section \<open>Arithmetic on numbers that are reals\<close>

lemma js_times_Num: "js_times (Num a) (Num b) = Num (a * b)"
  by (simp add: js_times_def)

lemma js_plus_Num: "js_plus (Num a) (Num b) = Num (a + b)"
  by (simp add: js_plus_def)

lemma Math_min_Num: "Math_min (Num a) (Num b) = Num (min a b)"
  by (simp add: Math_min_def js_less_def min_def)

lemma Math_max_Num: "Math_max (Num a) (Num b) = Num (max a b)"
  by (simp add: Math_max_def js_less_def max_def)

section \<open>Contextual score\<close>

text \<open>
  C4. For a prediction confidence and a reasoning confidence in \<open>[0, 1]\<close>, the contextual
  score is the prediction confidence times 100 times the reasoning confidence, plus 10 if
  the explanation contains \<open>urgent\<close> and the estimated time is below 20, plus 15 if the
  explanation contains \<open>quality\<close> and the average quality is above 85, clamped above at
  100; it lies in \<open>[0, 100]\<close>.
\<close>

theorem calculateContextualScore_formula_and_range:
  assumes "0 \<le> prediction_confidence p" and "prediction_confidence p \<le> 1"
    and "confidence r = Num c" and "0 \<le> c" and "c \<le> 1"
  shows "calculateContextualScore p r = Num (contextual_score_spec p r c)
     \<and> 0 \<le> contextual_score_spec p r c \<and> contextual_score_spec p r c \<le> 100"
proof -
  have eq: "calculateContextualScore p r = Num (contextual_score_spec p r c)"
    by (simp add: calculateContextualScore_def contextual_score_spec_def Let_def assms(3)
        js_times_Num js_plus_Num Math_min_Num)
  have "0 \<le> prediction_confidence p * 100 * c"
    using assms(1,4) by simp
  then have "0 \<le> contextual_score_spec p r c"
    by (simp add: contextual_score_spec_def)
  moreover have "contextual_score_spec p r c \<le> 100"
    by (simp add: contextual_score_spec_def)
  ultimately show ?thesis using eq by simp
qed

theorem calculateContextualScore_formula_and_range_witness:
  "0 \<le> prediction_confidence sample_prediction \<and> prediction_confidence sample_prediction \<le> 1
   \<and> confidence rush_reasoning = Num (19 / 20)
   \<and> calculateContextualScore sample_prediction rush_reasoning = Num (191 / 2)
   \<and> contextual_score_spec sample_prediction rush_reasoning (19 / 20) = 191 / 2"
proof -
  have p: "0 \<le> prediction_confidence sample_prediction"
      "prediction_confidence sample_prediction \<le> 1"
    by (simp_all add: sample_prediction_def)
  have r: "confidence rush_reasoning = Num (19 / 20)"
    by code_simp
  have c: "(0::real) \<le> 19 / 20" "(19 / 20 :: real) \<le> 1"
    by simp_all
  have score: "calculateContextualScore sample_prediction rush_reasoning = Num (191 / 2)"
    by code_simp
  from calculateContextualScore_formula_and_range [OF p r c] p r score
  show ?thesis by simp
qed

section \<open>Environmental factors and the confidence of the response\<close>

lemma processNaturalLanguageQuery_confidence:
  assumes "fst (processNaturalLanguageQuery svc rnd clock q supplied st) = Inr env"
  shows "response_confidence env =
     confidence (reasonAboutQuery (analyzeIntent rnd q) (extractContextFromQuery q supplied))"
proof -
  let ?ia = "analyzeIntent rnd q"
  let ?ctx = "extractContextFromQuery q supplied"
  let ?r = "reasonAboutQuery ?ia ?ctx"
  from assms obtain res where res: "executeIntelligentAction svc st ?r = Inr res"
    unfolding processNaturalLanguageQuery_def Let_def
    by (cases "executeIntelligentAction svc st ?r") simp_all
  obtain thrown st' where l: "learnFromInteraction q ?ia (action_type res) clock st = (thrown, st')"
    by (cases "learnFromInteraction q ?ia (action_type res) clock st")
  from assms res l have "thrown = None"
    unfolding processNaturalLanguageQuery_def Let_def
    by (cases thrown) simp_all
  with assms res l show ?thesis
    unfolding processNaturalLanguageQuery_def Let_def by auto
qed

text \<open>
  C5. For the request \<open>{"query": "hello there", "context": {"environmental_factors":
  {"mood": {"factor": "calm", "weight": "abc"}}}}\<close> the weight is truthy and converts to
  NaN: \<open>applyEnvironmentalFactors\<close> multiplies the confidence 0.7 of the general strategy
  by it, \<open>Math.max\<close> and \<open>Math.min\<close> return NaN for NaN, and the pipeline returns an envelope
  whose confidence is NaN, outside \<open>[0.1, 1.0]\<close> and outside \<open>[0, 1]\<close>.
\<close>

theorem applyEnvironmentalFactors_keeps_NaN:
  "environmental_factors mood_extracted = [(''mood'', Factor ''calm'' (JString ''abc''))]
   \<and> falsy (JString ''abc'') = False
   \<and> to_number (JString ''abc'') = NaN
   \<and> itype (primary (analyzeIntent draws_zero ''hello there'')) = General_inquiry
   \<and> confidence (reasonAboutGeneral mood_extracted) = Num (7 / 10)
   \<and> confidence (applyEnvironmentalFactors (reasonAboutGeneral mood_extracted) mood_extracted)
       = NaN
   \<and> isl (fst mood_pipeline_run) = False
   \<and> response_confidence (projr (fst mood_pipeline_run)) = NaN"
  by code_simp

text \<open>
  What holds of the clamp: its result is NaN only for NaN, and otherwise lies in
  \<open>[0.1, 1.0]\<close>. When every truthy weight converts to a real, as the weights that the
  extraction itself copies from the contextual-factor table do, the confidence stays a real
  in the arithmetic of the model, so that it lies in \<open>[0.1, 1.0]\<close> after the clamp, and so
  does the confidence of the envelope.
\<close>

lemma clamp_cases:
  "Math_min (Num 1) (Math_max (Num (1 / 10)) x) =
     (case x of
        Num c \<Rightarrow> Num (min 1 (max (1 / 10) c))
      | Infinity \<Rightarrow> Num 1
      | Minus_infinity \<Rightarrow> Num (1 / 10)
      | NaN \<Rightarrow> NaN)"
  by (cases x) (simp_all add: Math_min_def Math_max_def js_less_def min_def max_def)

lemma applyEnvironmentalFactors_NaN_or_bounds:
  "(case confidence (applyEnvironmentalFactors r ctx) of
      Num c \<Rightarrow> 1 / 10 \<le> c \<and> c \<le> 1
    | NaN \<Rightarrow> confidence (apply_entries (environmental_factors ctx) r) = NaN
    | _ \<Rightarrow> False)"
proof -
  have "confidence (applyEnvironmentalFactors r ctx) =
      Math_min (Num 1) (Math_max (Num (1 / 10))
        (confidence (apply_entries (environmental_factors ctx) r)))"
    by (simp add: applyEnvironmentalFactors_def Let_def)
  then show ?thesis
    by (cases "confidence (apply_entries (environmental_factors ctx) r)")
       (simp_all add: clamp_cases)
qed

lemma apply_entries_real:
  assumes "finite_weights es" and "confidence r = Num c"
  shows "\<exists>c'. confidence (apply_entries es r) = Num c'"
  using assms
proof (induction es arbitrary: r c)
  case Nil
  then show ?case by simp
next
  case (Cons entry es)
  obtain factorType factorData where entry: "entry = (factorType, factorData)"
    by (cases entry)
  from Cons.prems(1) have rest: "finite_weights es" and this_one: "finite_weight factorData"
    by (simp_all add: finite_weights_def entry)
  show ?case
  proof (cases factorData)
    case (Level lvl)
    with Cons.IH [OF rest Cons.prems(2)] show ?thesis by (simp add: entry)
  next
    case (Factor f w)
    show ?thesis
    proof (cases "falsy w")
      case True
      with Factor Cons.IH [OF rest Cons.prems(2)] show ?thesis by (simp add: entry)
    next
      case False
      with this_one Factor obtain x where x: "to_number w = Num x"
        by (cases "to_number w") simp_all
      have "confidence (r\<lparr>confidence := js_times (confidence r) (to_number w),
            explanation := explanation r @ ''Considering '' @ f @ '' factor. ''\<rparr>) = Num (c * x)"
        by (simp add: x Cons.prems(2) js_times_Num)
      from Cons.IH [OF rest this] False Factor show ?thesis by (simp add: entry)
    qed
  qed
qed

lemma applyEnvironmentalFactors_finite_weights:
  assumes "finite_weights (environmental_factors ctx)" and "confidence r = Num c"
  shows "\<exists>c'. confidence (applyEnvironmentalFactors r ctx) = Num c' \<and> 1 / 10 \<le> c' \<and> c' \<le> 1"
proof -
  from apply_entries_real [OF assms] obtain c0 where
    c0: "confidence (apply_entries (environmental_factors ctx) r) = Num c0" by blast
  have "confidence (applyEnvironmentalFactors r ctx) = Num (min 1 (max (1 / 10) c0))"
    by (simp add: applyEnvironmentalFactors_def Let_def c0 Math_min_Num Math_max_Num)
  then show ?thesis by simp
qed

lemma apply_patterns_finite:
  "finite_weights env \<Longrightarrow> finite_weights (apply_patterns factorType ps q env)"
proof (induction ps arbitrary: env)
  case Nil
  then show ?case by simp
next
  case (Cons entry ps)
  obtain p w f where entry: "entry = (p, w, f)" by (cases entry) auto
  have set_one: "finite_weights (obj_set k (Factor f (JNumber w)) m)" if "finite_weights m"
    for k and m :: "(string \<times> env_entry) list"
    using that by (induction m) (auto simp: finite_weights_def)
  from Cons.prems have
    "finite_weights (if regex_test_i p q then obj_set factorType (Factor f (JNumber w)) env else env)"
    by (simp add: set_one)
  from Cons.IH [OF this] show ?case by (simp add: entry)
qed

lemma apply_factors_finite:
  "finite_weights env \<Longrightarrow> finite_weights (apply_factors tbl q env)"
proof (induction tbl arbitrary: env)
  case Nil
  then show ?case by simp
next
  case (Cons entry tbl)
  obtain factorType ps where entry: "entry = (factorType, ps)" by (cases entry)
  from Cons.IH [OF apply_patterns_finite [OF Cons.prems, of factorType ps q]]
  show ?case by (simp add: entry)
qed

lemma extracted_factors_finite:
  assumes "supplied_environmental_factors supplied = None"
  shows "finite_weights (environmental_factors (extractContextFromQuery q supplied))"
proof -
  have "finite_weights (apply_factors contextualFactors q start)"
    if "start = [] \<or> start = [(''urgency'', Level ''high'')]" for start
    using that by (intro apply_factors_finite) (auto simp: finite_weights_def)
  then show ?thesis
    using assms by (simp add: extractContextFromQuery_def Let_def)
qed

lemma strategy_confidences:
  "confidence (reasonAboutAssignment ctx) =
     Num (0.85 + (if urgency_high ctx then 0.1 else 0) + (if quality_high ctx then 0.1 else 0))"
  "confidence (reasonAboutPerformance ctx) = Num 0.9"
  "confidence (reasonAboutAnalytics ctx) = Num 0.95"
  "confidence (reasonAboutLearning ctx) = Num 0.8"
  "confidence (reasonAboutGeneral ctx) = Num 0.7"
  by (simp_all add: reasonAboutAssignment_def reasonAboutPerformance_def reasonAboutAnalytics_def
        reasonAboutLearning_def reasonAboutGeneral_def Let_def)

lemma strategy_confidence_real:
  "\<exists>c. confidence (case t of
          Assignment \<Rightarrow> reasonAboutAssignment ctx
        | Performance \<Rightarrow> reasonAboutPerformance ctx
        | Analytics \<Rightarrow> reasonAboutAnalytics ctx
        | Learning \<Rightarrow> reasonAboutLearning ctx
        | _ \<Rightarrow> reasonAboutGeneral ctx) = Num c"
  by (cases t) (simp_all only: intent_type.case strategy_confidences, blast+)

lemma extracted_factors_confidence_bounds:
  assumes "supplied_environmental_factors supplied = None"
  shows "\<exists>c. confidence (reasonAboutQuery ia (extractContextFromQuery q supplied)) = Num c
     \<and> 1 / 10 \<le> c \<and> c \<le> 1"
proof -
  from strategy_confidence_real
    [where t = "itype (primary ia)" and ctx = "extractContextFromQuery q supplied"]
  obtain c0 where "confidence (case itype (primary ia) of
          Assignment \<Rightarrow> reasonAboutAssignment (extractContextFromQuery q supplied)
        | Performance \<Rightarrow> reasonAboutPerformance (extractContextFromQuery q supplied)
        | Analytics \<Rightarrow> reasonAboutAnalytics (extractContextFromQuery q supplied)
        | Learning \<Rightarrow> reasonAboutLearning (extractContextFromQuery q supplied)
        | _ \<Rightarrow> reasonAboutGeneral (extractContextFromQuery q supplied)) = Num c0"
    by blast
  from applyEnvironmentalFactors_finite_weights [OF extracted_factors_finite [OF assms] this]
  show ?thesis by (simp add: reasonAboutQuery_def)
qed

lemma extracted_factors_envelope_confidence:
  assumes "supplied_environmental_factors supplied = None"
    and "fst (processNaturalLanguageQuery svc rnd clock q supplied st) = Inr env"
  shows "\<exists>c. response_confidence env = Num c \<and> 0 \<le> c \<and> c \<le> 1"
proof -
  from extracted_factors_confidence_bounds [OF assms(1), of "analyzeIntent rnd q" q]
  obtain c where "confidence (reasonAboutQuery (analyzeIntent rnd q)
      (extractContextFromQuery q supplied)) = Num c" and "1 / 10 \<le> c" and "c \<le> 1"
    by blast
  with processNaturalLanguageQuery_confidence [OF assms(2)] show ?thesis by auto
qed

section \<open>Defaults of the assignment strategy\<close>

lemma mapComplexityToNumber_nonzero: "mapComplexityToNumber s \<noteq> 0"
  by (simp add: mapComplexityToNumber_def split: option.splits)

lemma reasonAboutAssignment_parameters:
  "parameters (reasonAboutAssignment ctx) =
     Some \<lparr>param_machineId =
             (if machineId (requirements ctx) = None \<or> machineId (requirements ctx) = Some 0
              then intelligentMachineSelection ctx else the (machineId (requirements ctx))),
           param_complexity = mapComplexityToNumber (complexity (requirements ctx))\<rparr>"
  by (simp add: reasonAboutAssignment_def Let_def mapComplexityToNumber_nonzero)

lemma reasonAboutAssignment_absent_complexity:
  "complexity (requirements ctx) = None \<Longrightarrow>
     map_option param_complexity (parameters (reasonAboutAssignment ctx)) = Some 3"
  by (simp add: reasonAboutAssignment_parameters mapComplexityToNumber_def)

text \<open>
  C6. For the query \<open>who should work on this rush job\<close> the extracted context has no
  complexity and high urgency. \<open>intelligentComplexityAssessment\<close> gives 4 for it, but the
  assignment strategy never calls it: \<open>mapComplexityToNumber\<close> has already turned the
  absent complexity into 3, so the complexity parameter is 3 and the only suggestion is
  the one about the machine.
\<close>

theorem reasonAboutAssignment_skips_assessment:
  "complexity (requirements rush_context) = None
   \<and> urgency_high rush_context
   \<and> intelligentComplexityAssessment rush_context = 4
   \<and> parameters (reasonAboutAssignment rush_context)
       = Some \<lparr>param_machineId = 3, param_complexity = 3\<rparr>
   \<and> suggestions (reasonAboutAssignment rush_context)
       = [''Intelligently selected Machine 3 based on context'']"
  by code_simp

section \<open>The urgent precision job on Machine 1\<close>

lemma urgent_precision_detected:
  "detect_intents rnd 0 intentPatterns (toLowerCase urgent_precision_query) =
   [\<lparr>itype = Assignment, iconfidence = 0.8 + rnd 0 * 0.2,
      matched_pattern = ''/who.*should.*work/i''\<rparr>,
    \<lparr>itype = Urgency, iconfidence = 0.8 + rnd 1 * 0.2, matched_pattern = ''/urgent/i''\<rparr>,
    \<lparr>itype = Quality, iconfidence = 0.8 + rnd 2 * 0.2, matched_pattern = ''/precision/i''\<rparr>]"
  by code_simp

lemma urgent_precision_primary:
  "itype (primary (analyzeIntent rnd urgent_precision_query)) =
     (if rnd 1 \<le> rnd 0 \<and> rnd 2 \<le> rnd 0 then Assignment
      else if rnd 2 \<le> rnd 1 then Urgency else Quality)"
  by (simp add: analyzeIntent_def Let_def urgent_precision_detected)

lemma urgent_precision_context:
  "extractContextFromQuery urgent_precision_query no_supplied_context =
     \<lparr>requirements = \<lparr>machineId = Some 1, complexity = Some ''critical'',
                       timeConstraint = Some ''urgent'', qualityFocus = Some ''high''\<rparr>,
      environmental_factors = [(''urgency'', Level ''high'')]\<rparr>"
  by code_simp

lemma urgent_precision_assignment_confidence:
  "confidence (applyEnvironmentalFactors
      (reasonAboutAssignment (extractContextFromQuery urgent_precision_query no_supplied_context))
      (extractContextFromQuery urgent_precision_query no_supplied_context)) = Num 1"
  by code_simp

lemma urgent_precision_general_confidence:
  "confidence (applyEnvironmentalFactors
      (reasonAboutGeneral (extractContextFromQuery urgent_precision_query no_supplied_context))
      (extractContextFromQuery urgent_precision_query no_supplied_context)) = Num (7 / 10)"
  by code_simp

text \<open>
  C7 (as amended). For the query \<open>Who should work on Machine 1 for an urgent precision job?\<close>
  with no supplied context, \<open>requirements.machineId\<close> is 1, \<open>requirements.qualityFocus\<close> is
  \<open>high\<close> and \<open>environmental_factors.urgency\<close> is the plain string \<open>high\<close>, the only
  environmental factor. The primary intent is assignment, urgency or quality, and it is
  assignment when no later draw exceeds the first one. When it is assignment the reasoning
  confidence is 1, above the base 0.85; otherwise the general strategy gives 0.7.
\<close>

theorem urgent_precision_scenario:
  "machineId (requirements (extractContextFromQuery urgent_precision_query no_supplied_context))
     = Some 1
   \<and> qualityFocus (requirements (extractContextFromQuery urgent_precision_query no_supplied_context))
     = Some ''high''
   \<and> environmental_factors (extractContextFromQuery urgent_precision_query no_supplied_context)
     = [(''urgency'', Level ''high'')]
   \<and> itype (primary (analyzeIntent rnd urgent_precision_query)) \<in> {Assignment, Urgency, Quality}
   \<and> (rnd 1 \<le> rnd 0 \<and> rnd 2 \<le> rnd 0
        \<longrightarrow> itype (primary (analyzeIntent rnd urgent_precision_query)) = Assignment)
   \<and> (itype (primary (analyzeIntent rnd urgent_precision_query)) = Assignment
        \<longrightarrow> confidence (reasonAboutQuery (analyzeIntent rnd urgent_precision_query)
              (extractContextFromQuery urgent_precision_query no_supplied_context)) = Num 1
          \<and> js_less (Num (85 / 100))
               (confidence (reasonAboutQuery (analyzeIntent rnd urgent_precision_query)
                  (extractContextFromQuery urgent_precision_query no_supplied_context))))
   \<and> (itype (primary (analyzeIntent rnd urgent_precision_query)) \<noteq> Assignment
        \<longrightarrow> confidence (reasonAboutQuery (analyzeIntent rnd urgent_precision_query)
              (extractContextFromQuery urgent_precision_query no_supplied_context))
            = Num (7 / 10))"
proof -
  let ?ctx = "extractContextFromQuery urgent_precision_query no_supplied_context"
  let ?ia = "analyzeIntent rnd urgent_precision_query"
  have ctx: "machineId (requirements ?ctx) = Some 1 \<and> qualityFocus (requirements ?ctx) = Some ''high''
      \<and> environmental_factors ?ctx = [(''urgency'', Level ''high'')]"
    by (simp add: urgent_precision_context)
  have types: "itype (primary ?ia) \<in> {Assignment, Urgency, Quality}"
    by (simp add: urgent_precision_primary)
  have first: "rnd 1 \<le> rnd 0 \<and> rnd 2 \<le> rnd 0 \<longrightarrow> itype (primary ?ia) = Assignment"
    by (simp add: urgent_precision_primary)
  have assignment: "confidence (reasonAboutQuery ?ia ?ctx) = Num 1
      \<and> js_less (Num (85 / 100)) (confidence (reasonAboutQuery ?ia ?ctx))"
    if "itype (primary ?ia) = Assignment"
    using that urgent_precision_assignment_confidence
    by (simp add: reasonAboutQuery_def js_less_def)
  have other: "confidence (reasonAboutQuery ?ia ?ctx) = Num (7 / 10)"
    if "itype (primary ?ia) \<noteq> Assignment"
  proof -
    from that types have "itype (primary ?ia) = Urgency \<or> itype (primary ?ia) = Quality" by simp
    then show ?thesis
      using urgent_precision_general_confidence by (auto simp: reasonAboutQuery_def)
  qed
  from ctx types first assignment other show ?thesis by blast
qed

theorem urgent_precision_scenario_witness:
  "(draws_zero 1 \<le> draws_zero 0 \<and> draws_zero 2 \<le> draws_zero 0)
   \<and> itype (primary (analyzeIntent draws_zero urgent_precision_query)) = Assignment
   \<and> confidence (reasonAboutQuery (analyzeIntent draws_zero urgent_precision_query)
        (extractContextFromQuery urgent_precision_query no_supplied_context)) = Num 1
   \<and> itype (primary (analyzeIntent draws_second_high urgent_precision_query)) \<noteq> Assignment
   \<and> confidence (reasonAboutQuery (analyzeIntent draws_second_high urgent_precision_query)
        (extractContextFromQuery urgent_precision_query no_supplied_context)) = Num (7 / 10)"
proof -
  have first: "draws_zero 1 \<le> draws_zero 0 \<and> draws_zero 2 \<le> draws_zero 0"
    by (simp add: draws_zero_def)
  have other: "itype (primary (analyzeIntent draws_second_high urgent_precision_query)) \<noteq> Assignment"
    by (simp add: urgent_precision_primary draws_second_high_def)
  from urgent_precision_scenario [of draws_zero] urgent_precision_scenario [of draws_second_high]
    first other
  show ?thesis by blast
qed

text \<open>
  C7 (as stated) fails: when the draw of the urgency candidate is the greatest, the primary
  intent is urgency and the reasoning confidence is 0.7, below 0.85; and the urgency entry
  is a string, which has no \<open>factor\<close> field.
\<close>

theorem urgent_precision_scenario_fails:
  "itype (primary (analyzeIntent draws_second_high urgent_precision_query)) = Urgency
   \<and> confidence (reasonAboutQuery (analyzeIntent draws_second_high urgent_precision_query)
        (extractContextFromQuery urgent_precision_query no_supplied_context)) = Num (7 / 10)
   \<and> map_option entry_factor
        (obj_get (environmental_factors
                    (extractContextFromQuery urgent_precision_query no_supplied_context))
           ''urgency'') = Some None"
  by code_simp

section \<open>The interactions buffer\<close>

lemma obj_get_obj_set: "obj_get (obj_set k v m) k' = (if k' = k then Some v else obj_get m k')"
  by (induction m) auto

lemma preferences_words:
  "split_whitespace (toLowerCase ''user_preferences'') = [''user_preferences'']"
  by code_simp

lemma preferences_call_throws:
  assumes "obj_get (patterns st) ''user_preferences'' = Some Stored_preferences"
  shows "learnFromInteraction ''user_preferences'' ia resultType clock st =
     (Some (TypeError ''patterns.get(...).push is not a function''),
      st\<lparr>interactions := interactions st @
            [\<lparr>timestamp = clock 0, interaction_query = ''user_preferences'',
              interaction_intent = itype (primary ia), result_type = resultType,
              interaction_confidence = iconfidence (primary ia)\<rparr>]\<rparr>)"
  using assms by (simp add: learnFromInteraction_def preferences_words Let_def)

lemma preferences_calls_accumulate:
  assumes "obj_get (patterns st) ''user_preferences'' = Some Stored_preferences"
  shows "length (interactions (learn_all (replicate n preferences_call) st))
           = length (interactions st) + n"
  using assms
proof (induction n arbitrary: st)
  case 0
  then show ?case by simp
next
  case (Suc n)
  let ?st' = "snd (learnFromInteraction ''user_preferences''
      (analyzeIntent draws_zero ''user_preferences'') ''general_assistance'' clock_fixed st)"
  have "obj_get (patterns ?st') ''user_preferences'' = Some Stored_preferences"
    using Suc.prems by (simp add: preferences_call_throws)
  from Suc.IH [OF this] have "length (interactions (learn_all (replicate n preferences_call) ?st'))
      = length (interactions ?st') + n" .
  moreover have "length (interactions ?st') = length (interactions st) + 1"
    using Suc.prems by (simp add: preferences_call_throws)
  ultimately show ?case by (simp add: preferences_call_def)
qed

text \<open>
  C8. After \<open>loadLearningData\<close> the patterns map holds a plain object under
  \<open>user_preferences\<close>. A call of \<open>learnFromInteraction\<close> for the query \<open>user_preferences\<close>
  pushes the interaction, then throws at \<open>push\<close> on that object, before the trim: after
  1001 such calls the buffer holds 1001 interactions, neither 800 nor at most 1000.
\<close>

theorem interactions_exceed_cap:
  "fst (learnFromInteraction ''user_preferences'' (analyzeIntent draws_zero ''user_preferences'')
          ''general_assistance'' clock_fixed (loadLearningData constructed))
     = Some (TypeError ''patterns.get(...).push is not a function'')
   \<and> total_interactions (getLearningStatus
        (learn_all (replicate 1001 preferences_call) (loadLearningData constructed))) = 1001"
proof -
  have stored: "obj_get (patterns (loadLearningData constructed)) ''user_preferences''
      = Some Stored_preferences"
    by (simp add: loadLearningData_def constructed_def)
  have "length (interactions (loadLearningData constructed)) = 0"
    by (simp add: loadLearningData_def constructed_def)
  with preferences_calls_accumulate [OF stored, of 1001] preferences_call_throws [OF stored]
  show ?thesis by (simp add: getLearningStatus_def)
qed

text \<open>
  What holds of the buffer: every call leaves its interaction last in the buffer; a call
  that returns leaves at most 1000 interactions; and on the store as constructed, where
  no call throws, 1001 calls leave exactly 800.
\<close>

lemma learnFromInteraction_records:
  "interactions (snd (learnFromInteraction q ia resultType clock st)) \<noteq> []
   \<and> last (interactions (snd (learnFromInteraction q ia resultType clock st))) =
       \<lparr>timestamp = clock 0, interaction_query = q, interaction_intent = itype (primary ia),
        result_type = resultType, interaction_confidence = iconfidence (primary ia)\<rparr>"
  by (auto simp: learnFromInteraction_def Let_def split: prod.splits option.splits)

lemma learnFromInteraction_returned_length:
  assumes "fst (learnFromInteraction q ia resultType clock st) = None"
  shows "length (interactions (snd (learnFromInteraction q ia resultType clock st))) =
     (if length (interactions st) < 1000 then length (interactions st) + 1 else 800)"
  using assms
  by (auto simp: learnFromInteraction_def Let_def split: prod.splits option.splits)

lemma obj_get_in_set: "obj_get m k = Some v \<Longrightarrow> (k, v) \<in> set m"
  by (induction m) (auto split: if_splits)

lemma arrays_only_obj_set:
  "arrays_only m \<Longrightarrow> v \<noteq> Stored_preferences \<Longrightarrow> arrays_only (obj_set k v m)"
  by (induction m) (auto simp: arrays_only_def)

lemma arrays_only_obj_get:
  assumes "arrays_only m" and "obj_get m k \<noteq> None"
  shows "\<exists>occs. obj_get m k = Some (Occurrences occs)"
proof -
  from assms(2) obtain v where v: "obj_get m k = Some v" by auto
  from obj_get_in_set [OF v] assms(1) have "v \<noteq> Stored_preferences"
    by (auto simp: arrays_only_def list_all_iff)
  with v show ?thesis by (cases v) auto
qed

lemma learn_words_arrays_only:
  "arrays_only pats \<Longrightarrow>
     fst (learn_words t clock k ws pats) = None \<and> arrays_only (snd (learn_words t clock k ws pats))"
proof (induction ws arbitrary: k pats)
  case Nil
  then show ?case by simp
next
  case (Cons word rest)
  show ?case
  proof (cases "length word > 3")
    case False
    then show ?thesis using Cons by simp
  next
    case True
    define pats' where
      "pats' = (if obj_get pats word = None then obj_set word (Occurrences []) pats else pats)"
    have inv: "arrays_only pats'"
      using Cons.prems by (simp add: pats'_def arrays_only_obj_set)
    have "obj_get pats' word \<noteq> None"
      by (simp add: pats'_def obj_get_obj_set)
    with inv obtain occs where occs: "obj_get pats' word = Some (Occurrences occs)"
      using arrays_only_obj_get by blast
    have "arrays_only (obj_set word (Occurrences (occs @ [(t, clock k)])) pats')"
      using inv by (simp add: arrays_only_obj_set)
    from Cons.IH [OF this] occs True show ?thesis
      by (simp add: pats'_def [symmetric] Let_def)
  qed
qed

lemma learnFromInteraction_arrays_only:
  assumes "arrays_only (patterns st)"
  shows "fst (learnFromInteraction q ia resultType clock st) = None
     \<and> arrays_only (patterns (snd (learnFromInteraction q ia resultType clock st)))"
proof -
  obtain thrown pats where words:
    "learn_words (itype (primary ia)) clock 1 (split_whitespace (toLowerCase q)) (patterns st)
       = (thrown, pats)"
    by (cases "learn_words (itype (primary ia)) clock 1 (split_whitespace (toLowerCase q))
                 (patterns st)")
  with learn_words_arrays_only [OF assms, of "itype (primary ia)" clock 1
      "split_whitespace (toLowerCase q)"]
  have "thrown = None" and "arrays_only pats" by simp_all
  with words show ?thesis by (simp add: learnFromInteraction_def Let_def)
qed

lemma learn_all_append: "learn_all (xs @ ys) st = learn_all ys (learn_all xs st)"
  by (induction xs arbitrary: st) auto

lemma learn_all_below_cap:
  assumes "arrays_only (patterns st)"
    and "length (interactions st) + length calls \<le> 1000"
  shows "length (interactions (learn_all calls st)) = length (interactions st) + length calls
     \<and> arrays_only (patterns (learn_all calls st))"
  using assms
proof (induction calls arbitrary: st)
  case Nil
  then show ?case by simp
next
  case (Cons call calls)
  obtain q ia resultType clock where call: "call = (q, ia, resultType, clock)"
    by (cases call) auto
  let ?st' = "snd (learnFromInteraction q ia resultType clock st)"
  from learnFromInteraction_arrays_only [OF Cons.prems(1), of q ia resultType clock]
  have returned: "fst (learnFromInteraction q ia resultType clock st) = None"
    and inv: "arrays_only (patterns ?st')" by simp_all
  from learnFromInteraction_returned_length [OF returned] Cons.prems(2)
  have len: "length (interactions ?st') = length (interactions st) + 1" by simp
  with Cons.prems(2) have "length (interactions ?st') + length calls \<le> 1000" by simp
  from Cons.IH [OF inv this] len show ?case by (simp add: call)
qed

lemma learn_all_1001_constructed:
  assumes "length calls = 1001"
  shows "length (interactions (learn_all calls constructed)) = 800"
proof -
  from assms have "calls \<noteq> []" by auto
  then have split: "calls = butlast calls @ [last calls]" by simp
  obtain q ia resultType clock where final: "last calls = (q, ia, resultType, clock)"
    by (cases "last calls") auto
  let ?st = "learn_all (butlast calls) constructed"
  have "arrays_only (patterns constructed)"
    by (simp add: arrays_only_def constructed_def)
  moreover have "length (interactions constructed) + length (butlast calls) \<le> 1000"
    using assms by (simp add: constructed_def)
  ultimately have full: "length (interactions ?st) = 1000" and inv: "arrays_only (patterns ?st)"
    using learn_all_below_cap [of constructed "butlast calls"] assms
    by (simp_all add: constructed_def)
  from learnFromInteraction_arrays_only [OF inv, of q ia resultType clock]
  have "fst (learnFromInteraction q ia resultType clock ?st) = None" by simp
  from learnFromInteraction_returned_length [OF this] full
  have "length (interactions (snd (learnFromInteraction q ia resultType clock ?st))) = 800"
    by simp
  moreover have "learn_all calls constructed =
      snd (learnFromInteraction q ia resultType clock ?st)"
    by (subst split) (simp add: learn_all_append final)
  ultimately show ?thesis by simp
qed

section \<open>The handler without a query\<close>

text \<open>
  C9. When the body cannot be parsed, or the parsed value has no \<open>query\<close> property, the
  handler answers with status 400 and a body made of an error string and a suggestion
  string, and leaves the learning store as it was; the exception raised on the way is turned
  into that answer.
\<close>

theorem handleNaturalLanguageQuery_missing_query:
  assumes "parsed = Inl e \<or> (\<exists>v. parsed = Inr v \<and> property v ''query'' = None)"
  shows "\<exists>msg. handleNaturalLanguageQuery svc rnd clock read_context parsed st =
     (\<lparr>status = 400,
       body = Error_body (''Invalid query format: '' @ msg)
                ''Please provide a natural language query about worker assignments''\<rparr>, st)"
  using assms
proof
  assume "parsed = Inl e"
  then show ?thesis by (simp add: handleNaturalLanguageQuery_def error_response_def)
next
  assume "\<exists>v. parsed = Inr v \<and> property v ''query'' = None"
  then obtain v where "parsed = Inr v" and "property v ''query'' = None" by blast
  then show ?thesis
    by (cases v) (simp_all add: handleNaturalLanguageQuery_def error_response_def)
qed

theorem handleNaturalLanguageQuery_missing_query_witness:
  "property (JObject [(''context'', JObject [])]) ''query'' = None
   \<and> handleNaturalLanguageQuery sample_services draws_zero clock_fixed untyped_context
        (Inr (JObject [(''context'', JObject [])])) rush_store =
      (\<lparr>status = 400,
        body = Error_body ''Invalid query format: Query field is required''
                 ''Please provide a natural language query about worker assignments''\<rparr>,
       rush_store)"
proof -
  have missing: "property (JObject [(''context'', JObject [])]) ''query'' = None"
    by simp
  then have "Inr (JObject [(''context'', JObject [])]) = Inl (Error [])
      \<or> (\<exists>v. Inr (JObject [(''context'', JObject [])]) = Inr v \<and> property v ''query'' = None)"
    by blast
  from handleNaturalLanguageQuery_missing_query [OF this, of sample_services draws_zero
      clock_fixed untyped_context rush_store]
  obtain msg where "handleNaturalLanguageQuery sample_services draws_zero clock_fixed untyped_context
        (Inr (JObject [(''context'', JObject [])])) rush_store =
      (\<lparr>status = 400,
        body = Error_body (''Invalid query format: '' @ msg)
                 ''Please provide a natural language query about worker assignments''\<rparr>,
       rush_store)" by blast
  moreover have "handleNaturalLanguageQuery sample_services draws_zero clock_fixed untyped_context
        (Inr (JObject [(''context'', JObject [])])) rush_store =
      (error_response (Error ''Query field is required''), rush_store)"
    by (simp add: handleNaturalLanguageQuery_def)
  ultimately show ?thesis using missing by (simp add: error_response_def)
qed

section \<open>The patterns map only grows\<close>

lemma length_obj_set: "length m \<le> length (obj_set k v m)"
  by (induction m) auto

lemma learn_words_length: "length pats \<le> length (snd (learn_words t clock k ws pats))"
proof (induction ws arbitrary: k pats)
  case Nil
  then show ?case by simp
next
  case (Cons word rest)
  have step: "length pats \<le> length (obj_set word v pats)" for v
    by (rule length_obj_set)
  show ?case
  proof (cases "length word > 3")
    case False
    then show ?thesis using Cons.IH by simp
  next
    case True
    define pats' where
      "pats' = (if obj_get pats word = None then obj_set word (Occurrences []) pats else pats)"
    have grow: "length pats \<le> length pats'"
      by (simp add: pats'_def length_obj_set)
    show ?thesis
    proof (cases "obj_get pats' word")
      case None
      with True grow show ?thesis by (simp add: pats'_def [symmetric] Let_def)
    next
      case (Some v)
      show ?thesis
      proof (cases v)
        case Stored_preferences
        with Some True grow show ?thesis by (simp add: pats'_def [symmetric] Let_def)
      next
        case (Occurrences occs)
        have "length pats' \<le> length (obj_set word (Occurrences (occs @ [(t, clock k)])) pats')"
          by (rule length_obj_set)
        also have "\<dots> \<le> length (snd (learn_words t clock (Suc k) rest
              (obj_set word (Occurrences (occs @ [(t, clock k)])) pats')))"
          by (rule Cons.IH)
        finally show ?thesis
          using Some Occurrences True grow by (simp add: pats'_def [symmetric] Let_def)
      qed
    qed
  qed
qed

lemma learn_words_keeps:
  "(obj_get pats w = Some (Occurrences occs) \<longrightarrow>
      (\<exists>more. obj_get (snd (learn_words t clock k ws pats)) w = Some (Occurrences (occs @ more))))
   \<and> (obj_get pats w = Some Stored_preferences \<longrightarrow>
      obj_get (snd (learn_words t clock k ws pats)) w = Some Stored_preferences)"
proof (induction ws arbitrary: k pats occs)
  case Nil
  then show ?case by simp
next
  case (Cons word rest)
  show ?case
  proof (cases "length word > 3")
    case False
    then show ?thesis using Cons.IH by simp
  next
    case True
    define pats' where
      "pats' = (if obj_get pats word = None then obj_set word (Occurrences []) pats else pats)"
    have same: "obj_get pats w = Some v \<Longrightarrow> obj_get pats' w = Some v" for v
      by (auto simp: pats'_def obj_get_obj_set)
    show ?thesis
    proof (cases "obj_get pats' word")
      case None
      with True same show ?thesis by (auto simp: pats'_def [symmetric] Let_def)
    next
      case (Some v)
      show ?thesis
      proof (cases v)
        case Stored_preferences
        with Some True same show ?thesis by (auto simp: pats'_def [symmetric] Let_def)
      next
        case (Occurrences found)
        let ?pats'' = "obj_set word (Occurrences (found @ [(t, clock k)])) pats'"
        have result: "snd (learn_words t clock k (word # rest) pats) =
            snd (learn_words t clock (Suc k) rest ?pats'')"
          using Some Occurrences True by (simp add: pats'_def [symmetric] Let_def)
        have arrays: "\<exists>more. obj_get (snd (learn_words t clock (Suc k) rest ?pats'')) w
              = Some (Occurrences (occs @ more))"
          if "obj_get pats w = Some (Occurrences occs)"
        proof (cases "w = word")
          case True
          with that same Some Occurrences have "found = occs" by fastforce
          then have "obj_get ?pats'' w = Some (Occurrences (occs @ [(t, clock k)]))"
            using True by (simp add: obj_get_obj_set)
          with Cons.IH [of ?pats'' "occs @ [(t, clock k)]" "Suc k"]
          obtain more where "obj_get (snd (learn_words t clock (Suc k) rest ?pats'')) w
              = Some (Occurrences ((occs @ [(t, clock k)]) @ more))" by blast
          then show ?thesis by auto
        next
          case False
          with that same have "obj_get ?pats'' w = Some (Occurrences occs)"
            by (simp add: obj_get_obj_set)
          with Cons.IH [of ?pats'' occs "Suc k"] show ?thesis by blast
        qed
        have object: "obj_get (snd (learn_words t clock (Suc k) rest ?pats'')) w
              = Some Stored_preferences"
          if "obj_get pats w = Some Stored_preferences"
        proof -
          from that same Some Occurrences have "w \<noteq> word" by fastforce
          with that same have "obj_get ?pats'' w = Some Stored_preferences"
            by (simp add: obj_get_obj_set)
          with Cons.IH [of ?pats'' occs "Suc k"] show ?thesis by blast
        qed
        from arrays object show ?thesis by (simp only: result) blast
      qed
    qed
  qed
qed

lemma learnFromInteraction_patterns:
  "patterns (snd (learnFromInteraction q ia resultType clock st)) =
     snd (learn_words (itype (primary ia)) clock 1 (split_whitespace (toLowerCase q)) (patterns st))"
  by (simp add: learnFromInteraction_def Let_def split: prod.splits option.splits)

lemma learnFromInteraction_preferences:
  "preferences (snd (learnFromInteraction q ia resultType clock st)) = preferences st"
  by (simp add: learnFromInteraction_def Let_def split: prod.splits option.splits)

lemma learnFromInteraction_keeps:
  "(obj_get (patterns st) w = Some (Occurrences occs) \<longrightarrow>
      (\<exists>more. obj_get (patterns (snd (learnFromInteraction q ia resultType clock st))) w
          = Some (Occurrences (occs @ more))))
   \<and> (obj_get (patterns st) w = Some Stored_preferences \<longrightarrow>
      obj_get (patterns (snd (learnFromInteraction q ia resultType clock st))) w
          = Some Stored_preferences)"
  by (simp only: learnFromInteraction_patterns) (rule learn_words_keeps)

text \<open>
  C10. Across any sequence of calls of \<open>learnFromInteraction\<close>, whether they trim the
  interactions or not, the number of learned patterns that \<open>getLearningStatus\<close> reports does
  not decrease, the preferences map is unchanged, and every entry of the patterns map is
  kept: an array of occurrences is only extended at its end.
\<close>

theorem learn_all_patterns_monotone:
  "learned_patterns (getLearningStatus st) \<le> learned_patterns (getLearningStatus (learn_all calls st))
   \<and> preferences (learn_all calls st) = preferences st
   \<and> (obj_get (patterns st) w = Some (Occurrences occs) \<longrightarrow>
        (\<exists>more. obj_get (patterns (learn_all calls st)) w = Some (Occurrences (occs @ more))))
   \<and> (obj_get (patterns st) w = Some Stored_preferences \<longrightarrow>
        obj_get (patterns (learn_all calls st)) w = Some Stored_preferences)"
proof (induction calls arbitrary: st occs)
  case Nil
  then show ?case by simp
next
  case (Cons call calls)
  obtain q ia resultType clock where call: "call = (q, ia, resultType, clock)"
    by (cases call) auto
  let ?st' = "snd (learnFromInteraction q ia resultType clock st)"
  have next_state: "learn_all (call # calls) st = learn_all calls ?st'"
    by (simp add: call)
  have size: "learned_patterns (getLearningStatus st) \<le> learned_patterns (getLearningStatus ?st')"
    by (simp add: getLearningStatus_def learnFromInteraction_patterns learn_words_length)
  have prefs: "preferences ?st' = preferences st"
    by (rule learnFromInteraction_preferences)
  note kept = learnFromInteraction_keeps [of st w _ q ia resultType clock]
  have arrays: "\<exists>more. obj_get (patterns (learn_all calls ?st')) w = Some (Occurrences (occs @ more))"
    if "obj_get (patterns st) w = Some (Occurrences occs)"
  proof -
    from that kept obtain more1 where "obj_get (patterns ?st') w = Some (Occurrences (occs @ more1))"
      by blast
    with Cons.IH [of ?st' "occs @ more1"] obtain more2 where
      "obj_get (patterns (learn_all calls ?st')) w = Some (Occurrences ((occs @ more1) @ more2))"
      by blast
    then show ?thesis by auto
  qed
  have object: "obj_get (patterns (learn_all calls ?st')) w = Some Stored_preferences"
    if "obj_get (patterns st) w = Some Stored_preferences"
    using that kept Cons.IH [of ?st' occs] by blast
  from size prefs arrays object Cons.IH [of ?st' occs] show ?case
    by (simp only: next_state) (metis order_trans)
qed

theorem learn_all_patterns_monotone_witness:
  "obj_get (patterns rush_store) ''rush''
      = Some (Occurrences [(Urgency, ''2023-12-31T00:00:00.000Z'')])
   \<and> obj_get (patterns (learn_all [rush_call] rush_store)) ''rush''
      = Some (Occurrences [(Urgency, ''2023-12-31T00:00:00.000Z''),
                           (Urgency, ''2024-01-01T00:00:00.000Z'')])
   \<and> obj_get (patterns rush_store) ''user_preferences'' = Some Stored_preferences
   \<and> obj_get (patterns (learn_all [rush_call] rush_store)) ''user_preferences''
      = Some Stored_preferences
   \<and> learned_patterns (getLearningStatus rush_store) = 2
   \<and> learned_patterns (getLearningStatus (learn_all [rush_call] rush_store)) = 4"
proof -
  have before: "obj_get (patterns rush_store) ''rush''
      = Some (Occurrences [(Urgency, ''2023-12-31T00:00:00.000Z'')])"
    by code_simp
  have after: "obj_get (patterns (learn_all [rush_call] rush_store)) ''rush''
      = Some (Occurrences [(Urgency, ''2023-12-31T00:00:00.000Z''),
                           (Urgency, ''2024-01-01T00:00:00.000Z'')])"
    by code_simp
  have object: "obj_get (patterns rush_store) ''user_preferences'' = Some Stored_preferences"
    by code_simp
  have sizes: "learned_patterns (getLearningStatus rush_store) = 2"
      "learned_patterns (getLearningStatus (learn_all [rush_call] rush_store)) = 4"
    by code_simp+
  from learn_all_patterns_monotone [of rush_store "[rush_call]" "''user_preferences''"]
    before after object sizes
  show ?thesis by simp
qed

end
